theory Spec2Isabelle
  imports Complex_Main "HOL-Library.Char_ord" "HOL-Library.List_Lexorder"
begin

section \<open>Time primitives\<close>

text \<open>
  The two source files compute with dayjs objects, luxon \<open>DateTime\<close>s and JavaScript
  \<open>Date\<close>s. All of them are modelled by one type: an instant is the number of
  milliseconds on the wall-clock timeline of the configured time zone, counted from
  1970-01-01 00:00:00.000 of that wall clock. The zone is taken to have a fixed offset
  (no daylight-saving jumps), so that converting to the zone (\<open>.tz\<close>, \<open>setZone\<close>) is the
  identity on instants and calendar fields are plain arithmetic. Numeric configuration
  values are integers, but for \<open>isoWeekDay\<close>, which the source tests with
  \<open>Number.isInteger\<close>.
\<close>

type_synonym instant = int

definition add_minute :: "instant \<Rightarrow> int \<Rightarrow> instant" where
  "add_minute t n = t + n * 60000"

definition subtract_minute :: "instant \<Rightarrow> int \<Rightarrow> instant" where
  "subtract_minute t n = t - n * 60000"

definition add_day :: "instant \<Rightarrow> int \<Rightarrow> instant" where
  "add_day t n = t + n * 86400000"

definition startOf_day :: "instant \<Rightarrow> instant" where
  "startOf_day t = t - t mod 86400000"

definition endOf_day :: "instant \<Rightarrow> instant" where
  "endOf_day t = startOf_day t + 86399999"

definition startOf_minute :: "instant \<Rightarrow> instant" where
  "startOf_minute t = t - t mod 60000"

definition second_of :: "instant \<Rightarrow> int" where
  "second_of t = (t div 1000) mod 60"

definition minute_of :: "instant \<Rightarrow> int" where
  "minute_of t = (t div 60000) mod 60"

definition hour_of :: "instant \<Rightarrow> int" where
  "hour_of t = (t div 3600000) mod 24"

text \<open>Setters keep every other field, as \<open>.hour(h)\<close>, \<open>.minute(m)\<close> and
  \<open>.millisecond(0)\<close> do.\<close>

definition set_hour :: "instant \<Rightarrow> int \<Rightarrow> instant" where
  "set_hour t h = t + (h - hour_of t) * 3600000"

definition set_minute :: "instant \<Rightarrow> int \<Rightarrow> instant" where
  "set_minute t m = t + (m - minute_of t) * 60000"

definition set_millisecond_0 :: "instant \<Rightarrow> instant" where
  "set_millisecond_0 t = t - t mod 1000"

text \<open>1970-01-01 was a Thursday (ISO weekday 4).\<close>

definition isoWeekday :: "instant \<Rightarrow> int" where
  "isoWeekday t = (t div 86400000 + 3) mod 7 + 1"

subsection \<open>Civil calendar\<close>

definition is_leap :: "int \<Rightarrow> bool" where
  "is_leap y = ((y mod 4 = 0 \<and> y mod 100 \<noteq> 0) \<or> y mod 400 = 0)"

text \<open>Months are numbered 0 to 11, as in the configuration and in dayjs.\<close>

definition daysInMonth :: "int \<Rightarrow> int \<Rightarrow> int" where
  "daysInMonth y m =
     (if m = 1 then (if is_leap y then 29 else 28)
      else if m = 3 \<or> m = 5 \<or> m = 8 \<or> m = 10 then 30 else 31)"

definition days_before_month :: "int \<Rightarrow> int \<Rightarrow> int" where
  "days_before_month y m =
     (if m \<le> 0 then 0 else if m = 1 then 31
      else (if is_leap y then 1 else 0) +
        (if m = 2 then 59 else if m = 3 then 90 else if m = 4 then 120
         else if m = 5 then 151 else if m = 6 then 181 else if m = 7 then 212
         else if m = 8 then 243 else if m = 9 then 273 else if m = 10 then 304
         else 334))"

text \<open>Days from 1970-01-01 to January 1st of year \<open>y\<close>.\<close>

definition days_before_year :: "int \<Rightarrow> int" where
  "days_before_year y =
     365 * (y - 1970) + (y - 1) div 4 - (y - 1) div 100 + (y - 1) div 400 - 477"

text \<open>A broken-down local date-time: the fields a dayjs object carries.\<close>

record Civil =
  c_year :: int
  c_month :: int
  c_date :: int
  c_hour :: int
  c_minute :: int
  c_second :: int
  c_ms :: int

definition civil_instant :: "Civil \<Rightarrow> instant" where
  "civil_instant c =
     (days_before_year (c_year c) + days_before_month (c_year c) (c_month c)
        + (c_date c - 1)) * 86400000
     + c_hour c * 3600000 + c_minute c * 60000 + c_second c * 1000 + c_ms c"

text \<open>The broken-down form of an instant (the civil-from-days computation on the
  proleptic Gregorian calendar, with a shifted year that starts on March 1st).\<close>

definition civil_of :: "instant \<Rightarrow> Civil" where
  "civil_of t =
     (let z = t div 86400000 + 719468;
          era = z div 146097;
          doe = z - era * 146097;
          yoe = (doe - doe div 1460 + doe div 36524 - doe div 146096) div 365;
          doy = doe - (365 * yoe + yoe div 4 - yoe div 100);
          mp = (5 * doy + 2) div 153;
          r = t mod 86400000
      in \<lparr>c_year = yoe + era * 400 + (if mp < 10 then 0 else 1),
          c_month = (if mp < 10 then mp + 2 else mp - 10),
          c_date = doy - (153 * mp + 2) div 5 + 1,
          c_hour = r div 3600000,
          c_minute = (r div 60000) mod 60,
          c_second = (r div 1000) mod 60,
          c_ms = r mod 1000\<rparr>)"

definition year_of :: "instant \<Rightarrow> int" where
  "year_of t = c_year (civil_of t)"

section \<open>Data model\<close>

record PeriodMoment =
  year :: "int option"
  month :: int
  day :: int
  hour :: "int option"
  minute :: "int option"

text \<open>\<open>Period\<close> (endpoints are \<open>PeriodMoment\<close>s), \<open>DayjsPeriod\<close>, \<open>LuxonPeriod\<close> and
  \<open>DatePeriod\<close> (endpoints are instants) share the field names \<open>startAt\<close> and \<open>endAt\<close>.\<close>

record 'a Period =
  startAt :: 'a
  endAt :: 'a

record TimeSlot = "instant Period" +
  duration :: int

record Shift =
  startTime :: string
  endTime :: string

record AvailablePeriod =
  isoWeekDay :: rat
  shifts :: "Shift list"

record TimeSlotsFinderConfiguration =
  timeSlotDuration :: int
  availablePeriods :: "AvailablePeriod list"
  slotStartMinuteStep :: "int option"
  unavailablePeriods :: "PeriodMoment Period list option"
  minAvailableTimeBeforeSlot :: "int option"
  minAvailableTimeAfterSlot :: "int option"
  minTimeBeforeFirstSlot :: "int option"
  maxDaysBeforeLastSlot :: "int option"
  timeZone :: string

text \<open>\<open>InvalidArgumentError\<close> is the error luxon throws for a unit value that is not
  a number.\<close>

datatype error = TimeSlotsFinderError string | InvalidArgumentError string

text \<open>\<open>x ?? d\<close> on an optional number, and the truthiness of an optional number
  (\<open>undefined\<close> and \<open>0\<close> are falsy).\<close>

definition orElse :: "int option \<Rightarrow> int \<Rightarrow> int" where
  "orElse x d = (case x of None \<Rightarrow> d | Some v \<Rightarrow> v)"

definition truthy :: "int option \<Rightarrow> bool" where
  "truthy x = (case x of None \<Rightarrow> False | Some v \<Rightarrow> v \<noteq> 0)"

text \<open>\<open>a.localeCompare(b)\<close>, modelled by the lexicographic order of the character
  codes; on the zero-padded \<open>HH:MM\<close> strings the configuration holds, the two agree.\<close>

definition localeCompare :: "string \<Rightarrow> string \<Rightarrow> int" where
  "localeCompare a b = (if a < b then - 1 else if a = b then 0 else 1)"

section \<open>Merging overlapping shifts (identical text in both source files)\<close>

text \<open>The \<open>for\<close> loop of \<open>_mergeOverlappingShifts\<close>: \<open>i\<close> is the loop index at the loop
  test; \<open>splice(i + 1, 1)\<close> followed by \<open>i -= 1\<close> and the loop's \<open>i += 1\<close> leaves \<open>i\<close> as
  it was.\<close>

function mergeLoop :: "nat \<Rightarrow> Shift list \<Rightarrow> Shift list" where
  "mergeLoop i sortedShifts =
     (if i + 1 < length sortedShifts then
        (if localeCompare (endTime (sortedShifts ! i)) (startTime (sortedShifts ! (i + 1))) \<ge> 0
         then
           (let updated =
                  (if localeCompare (endTime (sortedShifts ! i)) (endTime (sortedShifts ! (i + 1))) < 0
                   then sortedShifts[i := \<lparr>startTime = startTime (sortedShifts ! i),
                                             endTime = endTime (sortedShifts ! (i + 1))\<rparr>]
                   else sortedShifts)
            in mergeLoop i (take (i + 1) updated @ drop (i + 2) updated))
         else mergeLoop (i + 1) sortedShifts)
      else sortedShifts)"
  by pat_completeness auto
termination
  by (relation "measure (\<lambda>(i, xs). 2 * length xs - i)") (auto simp: Let_def)

declare mergeLoop.simps [simp del]

text \<open>\<open>[...shifts].sort(...)\<close> is a stable sort on \<open>startTime\<close>.\<close>

definition mergeOverlappingShifts :: "Shift list \<Rightarrow> Shift list" where
  "mergeOverlappingShifts shs =
     (if length shs < 2 then shs
      else mergeLoop 0 (sort_key startTime shs))"

definition mergeOverlappingShiftsInAvailablePeriods ::
    "AvailablePeriod list \<Rightarrow> AvailablePeriod list" where
  "mergeOverlappingShiftsInAvailablePeriods aps =
     map (\<lambda>availablePeriod.
            availablePeriod\<lparr>shifts := mergeOverlappingShifts (shifts availablePeriod)\<rparr>) aps"

text \<open>The same merge as a recursion on the list from the loop index on.\<close>

fun merge_rec :: "Shift list \<Rightarrow> Shift list" where
  "merge_rec (a # b # rest) =
     (if endTime a \<ge> startTime b
      then merge_rec ((if endTime a < endTime b
                       then \<lparr>startTime = startTime a, endTime = endTime b\<rparr> else a) # rest)
      else a # merge_rec (b # rest))"
| "merge_rec xs = xs"

text \<open>No shift of the list reaches the start of the next one.\<close>

fun separated :: "Shift list \<Rightarrow> bool" where
  "separated (a # b # rest) = (endTime a < startTime b \<and> separated (b # rest))"
| "separated xs = True"


section \<open>The clock\<close>

text \<open>
  Reading the system clock (\<open>dayjs()\<close>, \<open>dayjs(object)\<close>, \<open>dayjs.tz(string, zone)\<close>,
  \<open>DateTime.local()\<close>, \<open>DateTime.fromObject\<close>) is an effect. The clock is the sequence of the instants its
  next readings return; each reading takes the head of the sequence.
\<close>

type_synonym clock = "nat \<Rightarrow> instant"

definition now :: "clock \<Rightarrow> instant \<times> clock" where
  "now c = (c 0, \<lambda>k. c (Suc k))"

section \<open>Validation\<close>

subsection \<open>Parts with identical text in both source files\<close>

definition nullOrGreaterThanOrEqualTo :: "int \<Rightarrow> int option \<Rightarrow> bool" where
  "nullOrGreaterThanOrEqualTo limit v = (case v of None \<Rightarrow> True | Some x \<Rightarrow> x \<ge> limit)"

definition nullOrBetween :: "int \<Rightarrow> int \<Rightarrow> int option \<Rightarrow> bool" where
  "nullOrBetween lo hi v = (case v of None \<Rightarrow> True | Some x \<Rightarrow> x \<ge> lo \<and> x \<le> hi)"

definition is_digit :: "char \<Rightarrow> bool" where
  "is_digit ch = (CHR ''0'' \<le> ch \<and> ch \<le> CHR ''9'')"

definition digit_value :: "char \<Rightarrow> int" where
  "digit_value ch = int (of_char ch) - 48"

text \<open>The regular expression \<open>/^\d{2}:\d{2}$/\<close>.\<close>

definition matches_HHMM :: "string \<Rightarrow> bool" where
  "matches_HHMM s =
     (case s of
        [a, b, c, d, e] \<Rightarrow> is_digit a \<and> is_digit b \<and> c = CHR '':'' \<and> is_digit d \<and> is_digit e
      | _ \<Rightarrow> False)"

text \<open>\<open>Number(s)\<close> and \<open>parseInt(s, 10)\<close> on the strings they meet here. \<open>None\<close> is
  \<open>NaN\<close>, which fails every comparison. \<open>Number\<close> is only consulted in a conjunction
  with the regular expression, and \<open>parseInt\<close> only on strings that have passed it, so
  signs, blanks and the empty string need no treatment of their own.\<close>

definition digits_value :: "string \<Rightarrow> int" where
  "digits_value s = foldl (\<lambda>acc ch. 10 * acc + digit_value ch) 0 s"

definition Number :: "string \<Rightarrow> int option" where
  "Number s = (if s \<noteq> [] \<and> list_all is_digit s then Some (digits_value s) else None)"

definition parseInt :: "string \<Rightarrow> int option" where
  "parseInt s =
     (let ds = takeWhile is_digit s in if ds = [] then None else Some (digits_value ds))"

definition between :: "int option \<Rightarrow> int \<Rightarrow> int \<Rightarrow> bool" where
  "between v lo hi = (case v of None \<Rightarrow> False | Some x \<Rightarrow> x \<ge> lo \<and> x \<le> hi)"

text \<open>The first two elements of \<open>s.split(":")\<close>.\<close>

definition split_first :: "string \<Rightarrow> string" where
  "split_first s = takeWhile (\<lambda>ch. ch \<noteq> CHR '':'') s"

definition split_second :: "string \<Rightarrow> string" where
  "split_second s = split_first (drop 1 (dropWhile (\<lambda>ch. ch \<noteq> CHR '':'') s))"

definition isShiftValid :: "Shift \<Rightarrow> bool" where
  "isShiftValid shift =
     (let startHour = Number (split_first (startTime shift));
          startMinute = Number (split_second (startTime shift));
          endHour = Number (split_first (endTime shift));
          endMinute = Number (split_second (endTime shift))
      in matches_HHMM (startTime shift)
         \<and> matches_HHMM (endTime shift)
         \<and> between startHour 0 23
         \<and> between startMinute 0 59
         \<and> between endHour 0 23
         \<and> between endMinute 0 59
         \<and> localeCompare (endTime shift) (startTime shift) > 0)"

text \<open>Decimal rendering of \<open>${index + 1}\<close> after \<open>n\<close> and the ordinal sign.\<close>

fun show_nat :: "nat \<Rightarrow> string" where
  "show_nat n =
     (if n < 10 then [char_of (48 + n)] else show_nat (n div 10) @ [char_of (48 + n mod 10)])"

declare show_nat.simps [simp del]

definition numero :: "nat \<Rightarrow> string" where
  "numero index = ''n'' @ [CHR 0xBA] @ show_nat (index + 1)"

definition Number_isInteger :: "rat \<Rightarrow> bool" where
  "Number_isInteger x = (of_int \<lfloor>x\<rfloor> = x)"

definition isAvailablePeriodValid :: "AvailablePeriod \<Rightarrow> nat \<Rightarrow> error + bool" where
  "isAvailablePeriodValid availablePeriod index =
     (if \<not> Number_isInteger (isoWeekDay availablePeriod) then
        Inl (TimeSlotsFinderError
              (''ISO Weekday must and integer for available period '' @ numero index))
      else if isoWeekDay availablePeriod < 1 \<or> isoWeekDay availablePeriod > 7 then
        Inl (TimeSlotsFinderError
              (''ISO Weekday must be contains between 1 (Monday) and 7 (Sunday) for available period ''
               @ numero index))
      else
        (case find (\<lambda>shift. \<not> isShiftValid shift) (shifts availablePeriod) of
           Some shift \<Rightarrow>
             Inl (TimeSlotsFinderError
                   (''Daily shift '' @ startTime shift @ '' - '' @ endTime shift
                    @ '' for available period '' @ numero index @ '' is invalid''))
         | None \<Rightarrow>
             if length (mergeOverlappingShifts (shifts availablePeriod))
                  \<noteq> length (shifts availablePeriod)
             then Inl (TimeSlotsFinderError
                        (''Some shifts are overlapping for available period '' @ numero index))
             else Inr True))"

text \<open>The loop \<open>for (let i = 0; i < configuration.availablePeriods.length; i += 1)\<close>.\<close>

fun checkAvailablePeriods :: "AvailablePeriod list \<Rightarrow> nat \<Rightarrow> error + bool" where
  "checkAvailablePeriods [] i = Inr True"
| "checkAvailablePeriods (p # ps) i =
     (case isAvailablePeriodValid p i of
        Inl e \<Rightarrow> Inl e
      | Inr _ \<Rightarrow> checkAvailablePeriods ps (i + 1))"

text \<open>\<open>_isPeriodMomentValid\<close>: \<open>dayjs().month(m)\<close>, then \<open>.year(y)\<close> when the year is
  truthy (luxon: \<open>DateTime.local().set({month: m + 1})\<close>, then \<open>.set({year: y})\<close>); the
  month length is that of the given year, or of the year the clock is in.\<close>

definition isPeriodMomentValid :: "PeriodMoment \<Rightarrow> clock \<Rightarrow> bool \<times> clock" where
  "isPeriodMomentValid periodMoment c =
     (if hour periodMoment = None \<and> minute periodMoment \<noteq> None then (False, c)
      else
        (let isYearAndMonthValid =
               ((case year periodMoment of None \<Rightarrow> True | Some y \<Rightarrow> y > 0)
                \<and> month periodMoment \<ge> 0 \<and> month periodMoment \<le> 11)
         in if \<not> isYearAndMonthValid then (False, c)
            else
              (case now c of
                 (n, c') \<Rightarrow>
                   (let y = (if truthy (year periodMoment) then orElse (year periodMoment) 0
                             else year_of n)
                    in (day periodMoment \<ge> 1
                        \<and> day periodMoment \<le> daysInMonth y (month periodMoment)
                        \<and> (case hour periodMoment of None \<Rightarrow> True | Some h \<Rightarrow> h \<ge> 0 \<and> h \<le> 23)
                        \<and> (case minute periodMoment of None \<Rightarrow> True
                            | Some m \<Rightarrow> m \<ge> 0 \<and> m \<le> 59),
                        c')))))"

subsection \<open>dayjs\<close>

text \<open>\<open>zoneKnown\<close> is the time-zone database: \<open>dayjs().tz(timeZone)\<close> throws on a name
  it does not hold.\<close>

definition checkTimeZone_dayjs ::
    "(string \<Rightarrow> bool) \<Rightarrow> string \<Rightarrow> clock \<Rightarrow> (error + unit) \<times> clock" where
  "checkTimeZone_dayjs zoneKnown tz c =
     (if tz = [] then (Inl (TimeSlotsFinderError ''Missing time zone''), c)
      else
        (case now c of
           (n, c') \<Rightarrow>
             if zoneKnown tz then (Inr (), c')
             else (Inl (TimeSlotsFinderError (''Invalid time zone: '' @ tz)), c')))"

definition lead_exceeds_horizon :: "TimeSlotsFinderConfiguration \<Rightarrow> bool" where
  "lead_exceeds_horizon configuration =
     (let minBeforeFirst = minTimeBeforeFirstSlot configuration;
          maxBeforeLast = maxDaysBeforeLastSlot configuration
      in truthy minBeforeFirst \<and> truthy maxBeforeLast
         \<and> rat_of_int (orElse minBeforeFirst 0) / (24 * 60) > rat_of_int (orElse maxBeforeLast 0))"

definition lead_horizon_message :: string where
  "lead_horizon_message =
     ''The first possible slot will always be after last one possible (see minTimeBeforeFirstSlot and maxDaysBeforeLastSlot)''"

definition checkPrimitiveValue_dayjs ::
    "(string \<Rightarrow> bool) \<Rightarrow> TimeSlotsFinderConfiguration \<Rightarrow> clock \<Rightarrow> (error + bool) \<times> clock" where
  "checkPrimitiveValue_dayjs zoneKnown configuration c =
     (if timeSlotDuration configuration < 1 then
        (Inl (TimeSlotsFinderError ''Slot duration must be at least 1 minute''), c)
      else if \<not> nullOrBetween 1 30 (slotStartMinuteStep configuration) then
        (Inl (TimeSlotsFinderError ''Slot start minute step must be contained between 1 and 30''), c)
      else if \<not> nullOrGreaterThanOrEqualTo 0 (minAvailableTimeBeforeSlot configuration) then
        (Inl (TimeSlotsFinderError ''Time before a slot must be at least 0 minutes''), c)
      else if \<not> nullOrGreaterThanOrEqualTo 0 (minAvailableTimeAfterSlot configuration) then
        (Inl (TimeSlotsFinderError ''Time after a slot must be at least 0 minutes''), c)
      else if \<not> nullOrGreaterThanOrEqualTo 0 (minTimeBeforeFirstSlot configuration) then
        (Inl (TimeSlotsFinderError ''The number of minutes before first slot must be 0 or more''), c)
      else if \<not> nullOrGreaterThanOrEqualTo 1 (maxDaysBeforeLastSlot configuration) then
        (Inl (TimeSlotsFinderError ''The number of days before latest slot must be at least 1''), c)
      else
        (case checkTimeZone_dayjs zoneKnown (timeZone configuration) c of
           (Inl e, c') \<Rightarrow> (Inl e, c')
         | (Inr _, c') \<Rightarrow>
             if lead_exceeds_horizon configuration
             then (Inl (TimeSlotsFinderError lead_horizon_message), c')
             else (Inr True, c')))"


text \<open>
  \<open>new Date(y, M, d, h, m)\<close>: a year from 0 to 99 means 1900 + y, and fields out of
  range carry into the next larger field. \<open>carry_days\<close> brings the day of the month
  into the month's range.
\<close>

function carry_days :: "int \<Rightarrow> int \<Rightarrow> int \<Rightarrow> int \<times> int \<times> int" where
  "carry_days y m d =
     (if d > daysInMonth y m then
        (if m = 11 then carry_days (y + 1) 0 (d - daysInMonth y m)
         else carry_days y (m + 1) (d - daysInMonth y m))
      else if d < 1 then
        (if m = 0 then carry_days (y - 1) 11 (d + 31)
         else carry_days y (m - 1) (d + daysInMonth y (m - 1)))
      else (y, m, d))"
  by pat_completeness auto
termination
  by (relation "measure (\<lambda>(y, m, d). if d < 1 then nat (33 - d) else nat d)")
     (auto simp: daysInMonth_def)

declare carry_days.simps [simp del]

definition js_Date :: "int \<Rightarrow> int \<Rightarrow> int \<Rightarrow> int \<Rightarrow> int \<Rightarrow> Civil" where
  "js_Date y M d h mi =
     (let y1 = (if 0 \<le> y \<and> y \<le> 99 then 1900 + y else y);
          h1 = h + mi div 60;
          d1 = d + h1 div 24
      in (case carry_days (y1 + M div 12) (M mod 12) d1 of
            (y', M', d') \<Rightarrow>
              \<lparr>c_year = y', c_month = M', c_date = d', c_hour = h1 mod 24,
               c_minute = mi mod 60, c_second = 0, c_ms = 0\<rparr>))"

text \<open>\<open>dayjs(periodMoment)\<close> with the objectSupport plugin: it reads the clock and takes
  from it the fields the object leaves out (\<open>$d.year || now.year()\<close> and so on); hour and
  minute default to 0.\<close>

definition dayjs_object :: "PeriodMoment \<Rightarrow> clock \<Rightarrow> Civil \<times> clock" where
  "dayjs_object pm c =
     (case now c of
        (n, c') \<Rightarrow>
          (let d = (if day pm \<noteq> 0 then day pm
                    else if \<not> truthy (year pm) \<and> \<not> month pm \<ge> 0 then c_date (civil_of n)
                    else 1);
               y = (if truthy (year pm) then orElse (year pm) 0 else year_of n);
               M = (if month pm \<ge> 0 then month pm
                    else if \<not> truthy (year pm) \<and> day pm = 0 then c_month (civil_of n)
                    else 0);
               h = orElse (hour pm) 0;
               mi = orElse (minute pm) 0
           in (js_Date y M d h mi, c')))"

definition isBefore :: "Civil \<Rightarrow> Civil \<Rightarrow> bool" where
  "isBefore a b = (civil_instant a < civil_instant b)"

definition isUnavailablePeriodValid_dayjs ::
    "PeriodMoment Period \<Rightarrow> clock \<Rightarrow> bool \<times> clock" where
  "isUnavailablePeriodValid_dayjs period c =
     (if (year (startAt period) = None) \<noteq> (year (endAt period) = None) then (False, c)
      else
        (case isPeriodMomentValid (startAt period) c of
           (v1, c1) \<Rightarrow>
             if \<not> v1 then (False, c1)
             else
               (case isPeriodMomentValid (endAt period) c1 of
                  (v2, c2) \<Rightarrow>
                    if \<not> v2 then (False, c2)
                    else if year (startAt period) = None then (True, c2)
                    else
                      (case dayjs_object (startAt period) c2 of
                         (a, c3) \<Rightarrow>
                           (case dayjs_object (endAt period) c3 of
                              (b, c4) \<Rightarrow> (isBefore a b, c4))))))"

fun checkUnavailablePeriods_dayjs ::
    "PeriodMoment Period list \<Rightarrow> nat \<Rightarrow> clock \<Rightarrow> (error + bool) \<times> clock" where
  "checkUnavailablePeriods_dayjs [] i c = (Inr True, c)"
| "checkUnavailablePeriods_dayjs (p # ps) i c =
     (case isUnavailablePeriodValid_dayjs p c of
        (v, c') \<Rightarrow>
          if \<not> v then
            (Inl (TimeSlotsFinderError (''Unavailable period '' @ numero i @ '' is invalid'')), c')
          else checkUnavailablePeriods_dayjs ps (i + 1) c')"

text \<open>The tests of \<open>isConfigurationValid\<close> for a missing configuration and for
  \<open>availablePeriods\<close> or \<open>unavailablePeriods\<close> not being arrays, and the test
  \<open>timeSlotDuration == null\<close> of \<open>_checkPrimitiveValue\<close>, guard against ill-typed
  values; every value of the record type passes them. An array, also an empty one,
  is truthy, so the loop over \<open>unavailablePeriods\<close> runs whenever the field is
  present.\<close>

definition isConfigurationValid_dayjs ::
    "(string \<Rightarrow> bool) \<Rightarrow> TimeSlotsFinderConfiguration \<Rightarrow> clock \<Rightarrow> (error + bool) \<times> clock" where
  "isConfigurationValid_dayjs zoneKnown configuration c =
     (case checkPrimitiveValue_dayjs zoneKnown configuration c of
        (Inl e, c1) \<Rightarrow> (Inl e, c1)
      | (Inr _, c1) \<Rightarrow>
          (case checkAvailablePeriods (availablePeriods configuration) 0 of
             Inl e \<Rightarrow> (Inl e, c1)
           | Inr _ \<Rightarrow>
               (case unavailablePeriods configuration of
                  None \<Rightarrow> (Inr True, c1)
                | Some periods \<Rightarrow>
                    (case checkUnavailablePeriods_dayjs periods 0 c1 of
                       (Inl e, c2) \<Rightarrow> (Inl e, c2)
                     | (Inr _, c2) \<Rightarrow> (Inr True, c2)))))"

section \<open>The dayjs search\<close>

text \<open>\<open>from\<close> and \<open>to\<close> are \<open>None\<close> when the caller passes \<open>null\<close> or \<open>undefined\<close>.
  The \<open>try\<close> around the merge only guards against ill-typed periods.\<close>

definition checkSearchParameters_dayjs ::
    "(string \<Rightarrow> bool) \<Rightarrow> TimeSlotsFinderConfiguration \<Rightarrow> instant option \<Rightarrow> instant option
      \<Rightarrow> clock \<Rightarrow> (error + TimeSlotsFinderConfiguration) \<times> clock" where
  "checkSearchParameters_dayjs zoneKnown configuration from to c =
     (case (from, to) of
        (Some f, Some t) \<Rightarrow>
          if f > t then (Inl (TimeSlotsFinderError ''Invalid boundaries for the search''), c)
          else
            (let formattedPeriods =
                   mergeOverlappingShiftsInAvailablePeriods (availablePeriods configuration);
                 usedConfig = configuration\<lparr>availablePeriods := formattedPeriods\<rparr>
             in (case isConfigurationValid_dayjs zoneKnown usedConfig c of
                   (Inl e, c') \<Rightarrow> (Inl e, c')
                 | (Inr _, c') \<Rightarrow> (Inr usedConfig, c')))
      | _ \<Rightarrow> (Inl (TimeSlotsFinderError ''Invalid boundaries for the search''), c))"

definition computeBoundaries_dayjs ::
    "instant \<Rightarrow> instant \<Rightarrow> TimeSlotsFinderConfiguration \<Rightarrow> clock
      \<Rightarrow> (instant \<times> instant) \<times> clock" where
  "computeBoundaries_dayjs from to configuration c =
     (case (if truthy (maxDaysBeforeLastSlot configuration)
            then (case now c of
                    (n, c') \<Rightarrow>
                      (Some (endOf_day (add_day n (orElse (maxDaysBeforeLastSlot configuration) 0))),
                       c'))
            else (None, c)) of
        (searchLimitMoment, c1) \<Rightarrow>
          (case now c1 of
             (n2, c2) \<Rightarrow>
               (let firstFromMoment =
                      max from
                        (add_minute
                           (add_minute n2 (orElse (minAvailableTimeBeforeSlot configuration) 0))
                           (orElse (minTimeBeforeFirstSlot configuration) 0));
                    lastToMoment =
                      (case searchLimitMoment of
                         Some limit \<Rightarrow> min to limit
                       | None \<Rightarrow> to)
                in ((firstFromMoment, lastToMoment), c2))))"

definition getWeekDayConfigForMoment ::
    "TimeSlotsFinderConfiguration \<Rightarrow> instant \<Rightarrow> AvailablePeriod option" where
  "getWeekDayConfigForMoment configuration searchMoment =
     find (\<lambda>p. isoWeekDay p = of_int (isoWeekday searchMoment)) (availablePeriods configuration)"

text \<open>\<open>None\<close> when a \<open>parseInt\<close> gives \<open>NaN\<close>: the moment is then invalid, every
  comparison with it is false and the caller skips the shift.\<close>

definition getMomentsFromShift_dayjs :: "instant \<Rightarrow> Shift \<Rightarrow> instant Period option" where
  "getMomentsFromShift_dayjs fromMoment shift =
     (case (parseInt (take 2 (startTime shift)), parseInt (drop 3 (startTime shift)),
            parseInt (take 2 (endTime shift)), parseInt (drop 3 (endTime shift))) of
        (Some sh, Some sm, Some eh, Some em) \<Rightarrow>
          Some \<lparr>startAt = set_minute (set_hour fromMoment sh) sm,
                endAt = set_minute (set_hour fromMoment eh) em\<rparr>
      | _ \<Rightarrow> None)"

definition getMinTimeWindowNeeded :: "TimeSlotsFinderConfiguration \<Rightarrow> int" where
  "getMinTimeWindowNeeded configuration =
     orElse (minAvailableTimeBeforeSlot configuration) 0
     + timeSlotDuration configuration
     + orElse (minAvailableTimeAfterSlot configuration) 0"

definition pushNewSlot :: "instant \<Rightarrow> TimeSlotsFinderConfiguration \<Rightarrow> instant \<times> TimeSlot" where
  "pushNewSlot searchMoment configuration =
     (let startAt' = add_minute searchMoment (orElse (minAvailableTimeBeforeSlot configuration) 0);
          endAt' = add_minute startAt' (timeSlotDuration configuration);
          timeSlot = \<lparr>startAt = startAt', endAt = endAt',
                      duration = (endAt' - startAt') div 60000\<rparr>;
          minutesBeforeNextSearch =
            max (orElse (minAvailableTimeAfterSlot configuration) 0
                 - orElse (minAvailableTimeBeforeSlot configuration) 0) 0
      in (add_minute endAt' minutesBeforeNextSearch, timeSlot))"

text \<open>The step is between 1 and 30 and \<open>minute()\<close> is between 0 and 59 when this runs,
  so JavaScript's \<open>%\<close> is \<open>mod\<close>.\<close>

definition nextSearchMoment :: "instant \<Rightarrow> TimeSlotsFinderConfiguration \<Rightarrow> instant" where
  "nextSearchMoment moment configuration =
     (let nextMoment = (if second_of moment \<noteq> 0 then add_minute (startOf_minute moment) 1
                        else moment);
          slotStartAt = add_minute nextMoment (orElse (minAvailableTimeBeforeSlot configuration) 0);
          slotStartMinuteStep' = orElse (slotStartMinuteStep configuration) 5;
          minuteToAdd = (slotStartMinuteStep' - (minute_of slotStartAt mod slotStartMinuteStep'))
                          mod slotStartMinuteStep'
      in set_millisecond_0 (add_minute nextMoment minuteToAdd))"

definition filterPeriods :: "instant Period list \<Rightarrow> instant \<Rightarrow> instant \<Rightarrow> instant Period list" where
  "filterPeriods periods from to =
     filter (\<lambda>period. startAt period < to \<and> endAt period > from) periods"

text \<open>The comparator of \<open>_sortPeriods\<close> never returns 0, so the order of periods with
  equal starts is left to the engine; the model sorts stably. The periods that
  \<open>_prepareEvents\<close> keeps among those with equal starts are the ones with the greatest
  end, so the cleaned list does not depend on that order.\<close>

definition sortPeriods :: "instant Period list \<Rightarrow> instant Period list" where
  "sortPeriods periods = sort_key startAt periods"

fun findEmcompassingEvent :: "instant Period list \<Rightarrow> instant Period \<Rightarrow> bool" where
  "findEmcompassingEvent [] event = False"
| "findEmcompassingEvent (currentEvent # rest) event =
     (if startAt currentEvent \<le> startAt event \<and> endAt currentEvent > endAt event then True
      else if startAt currentEvent > startAt event then False
      else findEmcompassingEvent rest event)"

definition prepareEvents :: "instant Period list \<Rightarrow> instant \<Rightarrow> instant \<Rightarrow> instant Period list" where
  "prepareEvents periods from to =
     (let filteredPeriods = filterPeriods periods from to;
          sortedPeriods = sortPeriods filteredPeriods
      in filter (\<lambda>event. \<not> findEmcompassingEvent sortedPeriods event) sortedPeriods)"

text \<open>\<open>Array.prototype.findIndex\<close>: \<open>-1\<close> when no element satisfies the predicate.\<close>

fun findIndexFrom :: "('a \<Rightarrow> bool) \<Rightarrow> 'a list \<Rightarrow> int \<Rightarrow> int" where
  "findIndexFrom P [] i = - 1"
| "findIndexFrom P (x # xs) i = (if P x then i else findIndexFrom P xs (i + 1))"

definition findIndex :: "('a \<Rightarrow> bool) \<Rightarrow> 'a list \<Rightarrow> int" where
  "findIndex P xs = findIndexFrom P xs 0"

text \<open>The \<open>while\<close> loop of \<open>_getAvailableTimeSlotsForShift\<close>. Its state is
  \<open>searchMoment\<close>, \<open>eventIndex\<close> and \<open>timeSlots\<close>. Nothing in the loop itself bounds the
  number of rounds (a slot of duration 0 with no buffer leaves \<open>searchMoment\<close> where it
  was), so not returning is the value \<open>None\<close>.\<close>

partial_function (option) shiftLoop_dayjs ::
    "TimeSlotsFinderConfiguration \<Rightarrow> instant Period list \<Rightarrow> int \<Rightarrow> instant \<Rightarrow> instant \<Rightarrow> int
      \<Rightarrow> TimeSlot list \<Rightarrow> TimeSlot list option" where
  "shiftLoop_dayjs configuration cleanedList minTimeWindowNeeded searchEndMoment
       searchMoment eventIndex timeSlots =
     (if searchMoment \<le> searchEndMoment then
        (let focusedEvent =
               (if eventIndex \<ge> 0 \<and> nat eventIndex < length cleanedList
                then Some (cleanedList ! nat eventIndex) else None);
             searchMoment1 = nextSearchMoment searchMoment configuration;
             freeTimeLimitMoment = add_minute searchMoment1 minTimeWindowNeeded
         in (case (case focusedEvent of
                     Some ev \<Rightarrow> if startAt ev < freeTimeLimitMoment then Some ev else None
                   | None \<Rightarrow> None) of
               Some ev \<Rightarrow>
                 shiftLoop_dayjs configuration cleanedList minTimeWindowNeeded searchEndMoment
                   (endAt ev) (eventIndex + 1) timeSlots
             | None \<Rightarrow>
                 (case pushNewSlot searchMoment1 configuration of
                    (newSearchMoment, timeSlot) \<Rightarrow>
                      shiftLoop_dayjs configuration cleanedList minTimeWindowNeeded
                        searchEndMoment newSearchMoment eventIndex (timeSlots @ [timeSlot]))))
      else Some timeSlots)"

declare shiftLoop_dayjs.simps [code]

text \<open>The local constant that the source names \<open>minAvailableTimeAfterSlot\<close> holds the
  slot duration plus the time before a slot.\<close>

definition getAvailableTimeSlotsForShift_dayjs ::
    "TimeSlotsFinderConfiguration \<Rightarrow> instant Period list \<Rightarrow> instant \<Rightarrow> instant
      \<Rightarrow> TimeSlot list option" where
  "getAvailableTimeSlotsForShift_dayjs configuration eventList from to =
     (let minTimeWindowNeeded = getMinTimeWindowNeeded configuration;
          minAvailableTimeBeforeSlot' = orElse (minAvailableTimeBeforeSlot configuration) 0;
          minAvailableTimeAfterSlot' =
            timeSlotDuration configuration
            + orElse (minAvailableTimeBeforeSlot configuration) 0;
          searchMoment = subtract_minute from minAvailableTimeBeforeSlot';
          searchEndMoment = subtract_minute to minAvailableTimeAfterSlot';
          filteringMin = subtract_minute from minAvailableTimeBeforeSlot';
          filteringMax = add_minute to minAvailableTimeAfterSlot';
          cleanedList = prepareEvents eventList filteringMin filteringMax;
          eventIndex = findIndex (\<lambda>event. endAt event > searchMoment) cleanedList
      in shiftLoop_dayjs configuration cleanedList minTimeWindowNeeded searchEndMoment
           searchMoment eventIndex [])"


text \<open>The loop body of \<open>weekDayConfig.shifts.forEach\<close>, shift after shift;
  \<open>timeSlots\<close> is the array the slots are pushed to.\<close>

fun forEachShift_dayjs ::
    "TimeSlotsFinderConfiguration \<Rightarrow> instant Period list \<Rightarrow> instant \<Rightarrow> instant \<Rightarrow> instant
      \<Rightarrow> Shift list \<Rightarrow> TimeSlot list \<Rightarrow> TimeSlot list option" where
  "forEachShift_dayjs usedConfig eventList firstFromMoment lastToMoment fromMoment [] timeSlots =
     Some timeSlots"
| "forEachShift_dayjs usedConfig eventList firstFromMoment lastToMoment fromMoment
       (shift # rest) timeSlots =
     (case getMomentsFromShift_dayjs fromMoment shift of
        None \<Rightarrow>
          forEachShift_dayjs usedConfig eventList firstFromMoment lastToMoment fromMoment
            rest timeSlots
      | Some moments \<Rightarrow>
          (let partialFrom = max firstFromMoment (startAt moments);
               partialTo = min lastToMoment (endAt moments)
           in if \<not> partialFrom \<le> partialTo then
                forEachShift_dayjs usedConfig eventList firstFromMoment lastToMoment fromMoment
                  rest timeSlots
              else
                (case getAvailableTimeSlotsForShift_dayjs usedConfig eventList partialFrom partialTo of
                   None \<Rightarrow> None
                 | Some found \<Rightarrow>
                     forEachShift_dayjs usedConfig eventList firstFromMoment lastToMoment
                       fromMoment rest (timeSlots @ found))))"

text \<open>The \<open>while (fromMoment.isBefore(lastToMoment))\<close> loop over the days.\<close>

function dayLoop_dayjs ::
    "TimeSlotsFinderConfiguration \<Rightarrow> instant Period list \<Rightarrow> instant \<Rightarrow> instant \<Rightarrow> instant
      \<Rightarrow> TimeSlot list \<Rightarrow> TimeSlot list option" where
  "dayLoop_dayjs usedConfig eventList firstFromMoment lastToMoment fromMoment timeSlots =
     (if fromMoment < lastToMoment then
        (case (case getWeekDayConfigForMoment usedConfig fromMoment of
                 None \<Rightarrow> Some timeSlots
               | Some weekDayConfig \<Rightarrow>
                   forEachShift_dayjs usedConfig eventList firstFromMoment lastToMoment
                     fromMoment (shifts weekDayConfig) timeSlots) of
           None \<Rightarrow> None
         | Some timeSlots' \<Rightarrow>
             dayLoop_dayjs usedConfig eventList firstFromMoment lastToMoment
               (startOf_day (add_day fromMoment 1)) timeSlots')
      else Some timeSlots)"
  by pat_completeness auto
termination
proof (relation "measure (\<lambda>(usedConfig, eventList, firstFromMoment, lastToMoment, fromMoment,
                             timeSlots). nat (lastToMoment - fromMoment))")
  show "wf (measure (\<lambda>(usedConfig, eventList, firstFromMoment, lastToMoment, fromMoment,
                       timeSlots). nat (lastToMoment - fromMoment)))"
    by simp
next
  fix usedConfig :: TimeSlotsFinderConfiguration
  fix eventList :: "instant Period list" and timeSlots x2 :: "TimeSlot list"
  fix firstFromMoment lastToMoment fromMoment :: instant
  assume "fromMoment < lastToMoment"
  moreover have "(fromMoment + 86400000) mod 86400000 < 86400000" by simp
  then have "fromMoment < startOf_day (add_day fromMoment 1)"
    unfolding startOf_day_def add_day_def by linarith
  ultimately show "((usedConfig, eventList, firstFromMoment, lastToMoment,
          startOf_day (add_day fromMoment 1), x2),
         (usedConfig, eventList, firstFromMoment, lastToMoment, fromMoment, timeSlots))
        \<in> measure (\<lambda>(usedConfig, eventList, firstFromMoment, lastToMoment, fromMoment,
                       timeSlots). nat (lastToMoment - fromMoment))"
    by simp
qed

declare dayLoop_dayjs.simps [simp del]

text \<open>Operations on the broken-down form: \<open>startOf("day")\<close>, \<open>endOf("day")\<close> and
  \<open>add(n, "year")\<close>, which keeps the month and cuts the day to the month's length.\<close>

definition startOf_day_civil :: "Civil \<Rightarrow> Civil" where
  "startOf_day_civil c = c\<lparr>c_hour := 0, c_minute := 0, c_second := 0, c_ms := 0\<rparr>"

definition endOf_day_civil :: "Civil \<Rightarrow> Civil" where
  "endOf_day_civil c = c\<lparr>c_hour := 23, c_minute := 59, c_second := 59, c_ms := 999\<rparr>"

definition add_year :: "Civil \<Rightarrow> int \<Rightarrow> Civil" where
  "add_year c n =
     c\<lparr>c_year := c_year c + n,
       c_date := min (c_date c) (daysInMonth (c_year c + n) (c_month c))\<rparr>"

text \<open>\<open>dayjs.tz(string, timeZone)\<close> of the timezone plugin, on the string that
  \<open>format("YYYY-MM-DD HH:mm")\<close> made of the fields. The plugin reads the clock for a
  first guess of the offset of the zone (\<open>tzOffset(+d(), timezone)\<close>) and corrects the
  guess for the parsed time. The zone has one offset here, so the reading does not
  bear on the result; it is still a reading, and the next one comes after it.\<close>

definition dayjs_tz :: "Civil \<Rightarrow> clock \<Rightarrow> Civil \<times> clock" where
  "dayjs_tz parsed c = (case now c of (n, c') \<Rightarrow> (parsed, c'))"

text \<open>One round of the \<open>map\<close> in \<open>_getUnavailablePeriodAsEvents\<close>, in two steps:
  first both ends as the configuration gives them (whole days when the hour is
  absent), then the move of the end to the next year. The time zone has passed
  \<open>_checkTimeZone\<close>; formatting to \<open>YYYY-MM-DD HH:mm\<close> and parsing in the zone keep
  the fields (for years up to 9999).\<close>

definition resolvedEnds_dayjs ::
    "PeriodMoment Period \<Rightarrow> clock \<Rightarrow> (Civil \<times> Civil) \<times> clock" where
  "resolvedEnds_dayjs unavailablePeriod c =
     (case dayjs_object (startAt unavailablePeriod) c of
        (startAtFields, c1) \<Rightarrow>
          (case dayjs_tz startAtFields c1 of
             (startAt0, c2) \<Rightarrow>
               (case dayjs_object (endAt unavailablePeriod) c2 of
                  (endAtFields, c3) \<Rightarrow>
                    (case dayjs_tz endAtFields c3 of
                       (endAt0, c4) \<Rightarrow>
                         (((if hour (startAt unavailablePeriod) = None
                            then startOf_day_civil startAt0 else startAt0),
                           (if hour (endAt unavailablePeriod) = None
                            then endOf_day_civil endAt0 else endAt0)),
                          c4)))))"

definition unavailablePeriodAsEvent_dayjs ::
    "PeriodMoment Period \<Rightarrow> clock \<Rightarrow> instant Period \<times> clock" where
  "unavailablePeriodAsEvent_dayjs unavailablePeriod c =
     (case resolvedEnds_dayjs unavailablePeriod c of
        ((startAt1, endAt1), c2) \<Rightarrow>
          (let endAt2 = (if isBefore endAt1 startAt1 then add_year endAt1 1 else endAt1)
           in (\<lparr>startAt = civil_instant startAt1, endAt = civil_instant endAt2\<rparr>, c2)))"

fun getUnavailablePeriodAsEvents_dayjs ::
    "PeriodMoment Period list \<Rightarrow> clock \<Rightarrow> instant Period list \<times> clock" where
  "getUnavailablePeriodAsEvents_dayjs [] c = ([], c)"
| "getUnavailablePeriodAsEvents_dayjs (p # ps) c =
     (case unavailablePeriodAsEvent_dayjs p c of
        (ev, c1) \<Rightarrow>
          (case getUnavailablePeriodAsEvents_dayjs ps c1 of
             (evs, c2) \<Rightarrow> (ev # evs, c2)))"

text \<open>The exported function. The result is \<open>None\<close> when the call does not return,
  \<open>Some (Inl e)\<close> when it throws \<open>e\<close>, \<open>Some (Inr slots)\<close> when it returns \<open>slots\<close>.
  (\<open>_checkSearchParameters\<close> has thrown when \<open>from\<close> or \<open>to\<close> is missing, so the last
  case repeats its error.)\<close>

definition getAvailableTimeSlotsInCalendar_dayjs ::
    "(string \<Rightarrow> bool) \<Rightarrow> TimeSlotsFinderConfiguration \<Rightarrow> instant option \<Rightarrow> instant option
      \<Rightarrow> clock \<Rightarrow> (error + TimeSlot list) option" where
  "getAvailableTimeSlotsInCalendar_dayjs zoneKnown configuration from to c =
     (case checkSearchParameters_dayjs zoneKnown configuration from to c of
        (Inl e, c1) \<Rightarrow> Some (Inl e)
      | (Inr usedConfig, c1) \<Rightarrow>
          (case getUnavailablePeriodAsEvents_dayjs
                  (case unavailablePeriods usedConfig of None \<Rightarrow> [] | Some ps \<Rightarrow> ps) c1 of
             (eventList, c2) \<Rightarrow>
               (case (from, to) of
                  (Some f, Some t) \<Rightarrow>
                    (case computeBoundaries_dayjs f t usedConfig c2 of
                       ((firstFromMoment, lastToMoment), c3) \<Rightarrow>
                         map_option Inr
                           (dayLoop_dayjs usedConfig eventList firstFromMoment lastToMoment
                              firstFromMoment []))
                | _ \<Rightarrow> Some (Inl (TimeSlotsFinderError ''Invalid boundaries for the search'')))))"


section \<open>The luxon search\<close>

text \<open>
  In the luxon file \<open>from\<close> and \<open>to\<close> are \<open>DateTime\<close>s; \<open>None\<close> is an invalid
  \<open>DateTime\<close>, and so is every \<open>DateTime\<close> put into a zone the database does not
  hold. Comparisons with an invalid \<open>DateTime\<close> are false.
\<close>

text \<open>\<open>DateTime.local().setZone(timeZone)\<close> returns an invalid \<open>DateTime\<close> for an
  unknown zone and does not throw.\<close>

definition checkTimeZone_luxon :: "string \<Rightarrow> clock \<Rightarrow> (error + unit) \<times> clock" where
  "checkTimeZone_luxon tz c =
     (if tz = [] then (Inl (TimeSlotsFinderError ''Missing time zone''), c)
      else (case now c of (n, c') \<Rightarrow> (Inr (), c')))"

definition checkPrimitiveValue_luxon ::
    "TimeSlotsFinderConfiguration \<Rightarrow> clock \<Rightarrow> (error + bool) \<times> clock" where
  "checkPrimitiveValue_luxon configuration c =
     (case checkTimeZone_luxon (timeZone configuration) c of
        (Inl e, c') \<Rightarrow> (Inl e, c')
      | (Inr _, c') \<Rightarrow>
          if lead_exceeds_horizon configuration
          then (Inl (TimeSlotsFinderError lead_horizon_message), c')
          else (Inr True, c'))"

text \<open>\<open>DateTime.fromObject(periodMoment, {zone})\<close>: luxon counts months from 1, takes a
  missing year from the clock, and gives an invalid \<open>DateTime\<close> (\<open>None\<close>) for a field
  out of range.\<close>

definition luxon_fromObject :: "bool \<Rightarrow> PeriodMoment \<Rightarrow> clock \<Rightarrow> instant option \<times> clock" where
  "luxon_fromObject zoneOk pm c =
     (case now c of
        (n, c') \<Rightarrow>
          (let y = (case year pm of None \<Rightarrow> year_of n | Some y' \<Rightarrow> y');
               h = orElse (hour pm) 0;
               mi = orElse (minute pm) 0
           in (if zoneOk
                  \<and> 1 \<le> month pm \<and> month pm \<le> 12
                  \<and> 1 \<le> day pm \<and> day pm \<le> daysInMonth y (month pm - 1)
                  \<and> ((0 \<le> h \<and> h \<le> 23 \<and> 0 \<le> mi \<and> mi \<le> 59) \<or> (h = 24 \<and> mi = 0))
               then Some (civil_instant
                            \<lparr>c_year = y, c_month = month pm - 1, c_date = day pm, c_hour = h,
                             c_minute = mi, c_second = 0, c_ms = 0\<rparr>)
               else None,
               c')))"

definition isUnavailablePeriodValid_luxon ::
    "PeriodMoment Period \<Rightarrow> clock \<Rightarrow> bool \<times> clock" where
  "isUnavailablePeriodValid_luxon period c =
     (if (year (startAt period) = None) \<noteq> (year (endAt period) = None) then (False, c)
      else
        (case isPeriodMomentValid (startAt period) c of
           (v1, c1) \<Rightarrow>
             if \<not> v1 then (False, c1)
             else
               (case isPeriodMomentValid (endAt period) c1 of
                  (v2, c2) \<Rightarrow>
                    if \<not> v2 then (False, c2)
                    else if year (startAt period) = None then (True, c2)
                    else
                      (case luxon_fromObject True (startAt period) c2 of
                         (a, c3) \<Rightarrow>
                           (case luxon_fromObject True (endAt period) c3 of
                              (b, c4) \<Rightarrow>
                                ((case (a, b) of
                                    (Some ta, Some tb) \<Rightarrow> ta < tb
                                  | _ \<Rightarrow> False), c4))))))"

fun checkUnavailablePeriods_luxon ::
    "PeriodMoment Period list \<Rightarrow> nat \<Rightarrow> clock \<Rightarrow> (error + bool) \<times> clock" where
  "checkUnavailablePeriods_luxon [] i c = (Inr True, c)"
| "checkUnavailablePeriods_luxon (p # ps) i c =
     (case isUnavailablePeriodValid_luxon p c of
        (v, c') \<Rightarrow>
          if \<not> v then
            (Inl (TimeSlotsFinderError (''Unavailable period '' @ numero i @ '' is invalid'')), c')
          else checkUnavailablePeriods_luxon ps (i + 1) c')"

definition isConfigurationValid_luxon ::
    "TimeSlotsFinderConfiguration \<Rightarrow> clock \<Rightarrow> (error + bool) \<times> clock" where
  "isConfigurationValid_luxon configuration c =
     (case checkPrimitiveValue_luxon configuration c of
        (Inl e, c1) \<Rightarrow> (Inl e, c1)
      | (Inr _, c1) \<Rightarrow>
          (case checkAvailablePeriods (availablePeriods configuration) 0 of
             Inl e \<Rightarrow> (Inl e, c1)
           | Inr _ \<Rightarrow>
               (case unavailablePeriods configuration of
                  None \<Rightarrow> (Inr True, c1)
                | Some periods \<Rightarrow>
                    (case checkUnavailablePeriods_luxon periods 0 c1 of
                       (Inl e, c2) \<Rightarrow> (Inl e, c2)
                     | (Inr _, c2) \<Rightarrow> (Inr True, c2)))))"

definition checkSearchParameters_luxon ::
    "TimeSlotsFinderConfiguration \<Rightarrow> instant option \<Rightarrow> instant option \<Rightarrow> clock
      \<Rightarrow> (error + TimeSlotsFinderConfiguration) \<times> clock" where
  "checkSearchParameters_luxon configuration from to c =
     (case isConfigurationValid_luxon configuration c of
        (Inl e, c') \<Rightarrow> (Inl e, c')
      | (Inr valid, c') \<Rightarrow>
          if \<not> valid then
            (Inl (TimeSlotsFinderError
                   ''The configuration provided is invalid. Please check your settings.''), c')
          else
            (case (from, to) of
               (Some f, Some t) \<Rightarrow>
                 if f \<ge> t then (Inl (TimeSlotsFinderError ''Invalid date parameters''), c')
                 else
                   (Inr (configuration
                          \<lparr>availablePeriods :=
                             mergeOverlappingShiftsInAvailablePeriods
                               (availablePeriods configuration)\<rparr>), c')
             | _ \<Rightarrow> (Inl (TimeSlotsFinderError ''Invalid date parameters''), c')))"

fun getUnavailablePeriodAsEvents_luxon ::
    "bool \<Rightarrow> PeriodMoment Period list \<Rightarrow> clock \<Rightarrow> instant option Period list \<times> clock" where
  "getUnavailablePeriodAsEvents_luxon zoneOk [] c = ([], c)"
| "getUnavailablePeriodAsEvents_luxon zoneOk (period # periods) c =
     (case luxon_fromObject zoneOk (startAt period) c of
        (s, c1) \<Rightarrow>
          (case luxon_fromObject zoneOk (endAt period) c1 of
             (e, c2) \<Rightarrow>
               (case getUnavailablePeriodAsEvents_luxon zoneOk periods c2 of
                  (evs, c3) \<Rightarrow> (\<lparr>startAt = s, endAt = e\<rparr> # evs, c3))))"

definition computeBoundaries_luxon ::
    "instant \<Rightarrow> instant \<Rightarrow> TimeSlotsFinderConfiguration \<Rightarrow> clock
      \<Rightarrow> (instant \<times> instant) \<times> clock" where
  "computeBoundaries_luxon from to configuration c =
     (case (if truthy (maxDaysBeforeLastSlot configuration)
            then (case now c of
                    (n, c') \<Rightarrow>
                      (Some (endOf_day (add_day n (orElse (maxDaysBeforeLastSlot configuration) 0))),
                       c'))
            else (None, c)) of
        (searchLimitMoment, c1) \<Rightarrow>
          (case now c1 of
             (n2, c2) \<Rightarrow>
               (let firstFromMoment =
                      max from
                        (add_minute
                           (add_minute n2 (orElse (minAvailableTimeBeforeSlot configuration) 0))
                           (orElse (minTimeBeforeFirstSlot configuration) 0));
                    lastToMoment =
                      (case searchLimitMoment of
                         Some limit \<Rightarrow> min to limit
                       | None \<Rightarrow> to)
                in ((firstFromMoment, lastToMoment), c2))))"

text \<open>\<open>DateTime.fromISO("HH:MM")\<close> gives the hour and the minute of the string;
  \<open>set\<close> puts them into \<open>fromMoment\<close> with second and millisecond 0. The value of
  \<open>endAt.plus({ days: 1 })\<close> is dropped, so that statement changes nothing. (The
  readings of the clock that \<open>fromISO\<close> takes are left out: nothing reads the clock
  after them.)\<close>

definition getMomentsFromShift_luxon :: "instant \<Rightarrow> Shift \<Rightarrow> instant Period option" where
  "getMomentsFromShift_luxon fromMoment shift =
     (case (Number (split_first (startTime shift)), Number (split_second (startTime shift)),
            Number (split_first (endTime shift)), Number (split_second (endTime shift))) of
        (Some sh, Some sm, Some eh, Some em) \<Rightarrow>
          Some \<lparr>startAt = startOf_day fromMoment + sh * 3600000 + sm * 60000,
                endAt = startOf_day fromMoment + eh * 3600000 + em * 60000\<rparr>
      | _ \<Rightarrow> None)"

text \<open>\<open>Interval.fromDateTimes(s, e)\<close> is invalid when an end point is invalid or
  \<open>e < s\<close>; \<open>engulfs\<close> is false when either interval is invalid.\<close>

definition engulfs :: "instant \<Rightarrow> instant \<Rightarrow> instant option Period \<Rightarrow> bool" where
  "engulfs s e event =
     (s \<le> e \<and>
      (case (startAt event, endAt event) of
         (Some es, Some ee) \<Rightarrow> es \<le> ee \<and> s \<le> es \<and> e \<ge> ee
       | _ \<Rightarrow> False))"

text \<open>The \<open>while (endMoment <= to)\<close> loop. The minutes of an invalid interval's
  duration are \<open>NaN\<close>, which \<open>plus\<close> refuses.\<close>

partial_function (option) shiftLoop_luxon ::
    "int \<Rightarrow> instant option Period list \<Rightarrow> instant \<Rightarrow> instant \<Rightarrow> instant \<Rightarrow> TimeSlot list
      \<Rightarrow> (error + TimeSlot list) option" where
  "shiftLoop_luxon durationInMinutes eventList to startMoment endMoment timeSlots =
     (if endMoment \<le> to then
        (let timeSlots' =
               (if list_all (\<lambda>event. \<not> engulfs startMoment endMoment event) eventList
                then timeSlots @ [\<lparr>startAt = startMoment, endAt = endMoment,
                                   duration = (endMoment - startMoment) div 60000\<rparr>]
                else timeSlots)
         in if startMoment \<le> endMoment then
              (let startMoment' = add_minute startMoment ((endMoment - startMoment) div 60000)
               in shiftLoop_luxon durationInMinutes eventList to startMoment'
                    (add_minute startMoment' durationInMinutes) timeSlots')
            else Some (Inl (InvalidArgumentError ''Invalid unit value NaN'')))
      else Some (Inr timeSlots))"

declare shiftLoop_luxon.simps [code]

definition getAvailableTimeSlotsForShift_luxon ::
    "TimeSlotsFinderConfiguration \<Rightarrow> instant option Period list \<Rightarrow> instant \<Rightarrow> instant
      \<Rightarrow> (error + TimeSlot list) option" where
  "getAvailableTimeSlotsForShift_luxon configuration eventList from to =
     (let durationInMinutes = timeSlotDuration configuration;
          startMoment = from;
          endMoment = add_minute startMoment durationInMinutes
      in shiftLoop_luxon durationInMinutes eventList to startMoment endMoment [])"

fun forEachShift_luxon ::
    "TimeSlotsFinderConfiguration \<Rightarrow> instant option Period list \<Rightarrow> instant \<Rightarrow> instant \<Rightarrow> instant
      \<Rightarrow> Shift list \<Rightarrow> TimeSlot list \<Rightarrow> (error + TimeSlot list) option" where
  "forEachShift_luxon usedConfig eventList firstFromMoment lastToMoment fromMoment [] timeSlots =
     Some (Inr timeSlots)"
| "forEachShift_luxon usedConfig eventList firstFromMoment lastToMoment fromMoment
       (shift # rest) timeSlots =
     (case getMomentsFromShift_luxon fromMoment shift of
        None \<Rightarrow>
          forEachShift_luxon usedConfig eventList firstFromMoment lastToMoment fromMoment
            rest timeSlots
      | Some moments \<Rightarrow>
          (let partialFrom = max firstFromMoment (startAt moments);
               partialTo = min lastToMoment (endAt moments)
           in if partialFrom \<ge> partialTo then
                forEachShift_luxon usedConfig eventList firstFromMoment lastToMoment fromMoment
                  rest timeSlots
              else
                (case getAvailableTimeSlotsForShift_luxon usedConfig eventList partialFrom partialTo of
                   None \<Rightarrow> None
                 | Some (Inl e) \<Rightarrow> Some (Inl e)
                 | Some (Inr found) \<Rightarrow>
                     forEachShift_luxon usedConfig eventList firstFromMoment lastToMoment
                       fromMoment rest (timeSlots @ found))))"

function dayLoop_luxon ::
    "TimeSlotsFinderConfiguration \<Rightarrow> instant option Period list \<Rightarrow> instant \<Rightarrow> instant \<Rightarrow> instant
      \<Rightarrow> TimeSlot list \<Rightarrow> (error + TimeSlot list) option" where
  "dayLoop_luxon usedConfig eventList firstFromMoment lastToMoment fromMoment timeSlots =
     (if fromMoment < lastToMoment then
        (case (case getWeekDayConfigForMoment usedConfig fromMoment of
                 None \<Rightarrow> Some (Inr timeSlots)
               | Some weekDayConfig \<Rightarrow>
                   forEachShift_luxon usedConfig eventList firstFromMoment lastToMoment
                     fromMoment (shifts weekDayConfig) timeSlots) of
           None \<Rightarrow> None
         | Some (Inl e) \<Rightarrow> Some (Inl e)
         | Some (Inr timeSlots') \<Rightarrow>
             dayLoop_luxon usedConfig eventList firstFromMoment lastToMoment
               (startOf_day (add_day fromMoment 1)) timeSlots')
      else Some (Inr timeSlots))"
  by pat_completeness auto
termination
proof (relation "measure (\<lambda>(usedConfig, eventList, firstFromMoment, lastToMoment, fromMoment,
                             timeSlots). nat (lastToMoment - fromMoment))")
  show "wf (measure (\<lambda>(usedConfig, eventList, firstFromMoment, lastToMoment, fromMoment,
                       timeSlots). nat (lastToMoment - fromMoment)))"
    by simp
next
  fix usedConfig :: TimeSlotsFinderConfiguration
  fix eventList :: "instant option Period list" and timeSlots x2 :: "TimeSlot list"
  fix firstFromMoment lastToMoment fromMoment :: instant
  assume "fromMoment < lastToMoment"
  moreover have "(fromMoment + 86400000) mod 86400000 < 86400000" by simp
  then have "fromMoment < startOf_day (add_day fromMoment 1)"
    unfolding startOf_day_def add_day_def by linarith
  ultimately show
       "((usedConfig, eventList, firstFromMoment, lastToMoment,
          startOf_day (add_day fromMoment 1), x2),
         (usedConfig, eventList, firstFromMoment, lastToMoment, fromMoment, timeSlots))
        \<in> measure (\<lambda>(usedConfig, eventList, firstFromMoment, lastToMoment, fromMoment,
                       timeSlots). nat (lastToMoment - fromMoment))"
    by simp
qed

declare dayLoop_luxon.simps [simp del]

text \<open>The exported function of the luxon file. With a zone the database does not
  hold, both boundaries are invalid and the loop over the days does not run.\<close>

definition getAvailableTimeSlotsInCalendar_luxon ::
    "(string \<Rightarrow> bool) \<Rightarrow> TimeSlotsFinderConfiguration \<Rightarrow> instant option \<Rightarrow> instant option
      \<Rightarrow> clock \<Rightarrow> (error + TimeSlot list) option" where
  "getAvailableTimeSlotsInCalendar_luxon zoneKnown configuration from to c =
     (case checkSearchParameters_luxon configuration from to c of
        (Inl e, c1) \<Rightarrow> Some (Inl e)
      | (Inr usedConfig, c1) \<Rightarrow>
          (case getUnavailablePeriodAsEvents_luxon (zoneKnown (timeZone usedConfig))
                  (case unavailablePeriods usedConfig of None \<Rightarrow> [] | Some ps \<Rightarrow> ps) c1 of
             (eventList, c2) \<Rightarrow>
               (case (from, to) of
                  (Some f, Some t) \<Rightarrow>
                    (case computeBoundaries_luxon f t usedConfig c2 of
                       ((firstFromMoment, lastToMoment), c3) \<Rightarrow>
                         if zoneKnown (timeZone usedConfig)
                         then dayLoop_luxon usedConfig eventList firstFromMoment lastToMoment
                                firstFromMoment []
                         else Some (Inr []))
                | _ \<Rightarrow> Some (Inl (TimeSlotsFinderError ''Invalid date parameters'')))))"

text \<open>The test of the loop's \<open>if\<close>: the focused event exists and starts before the
  end of the free window of the candidate slot.\<close>

definition conflict :: "TimeSlotsFinderConfiguration \<Rightarrow> instant Period list \<Rightarrow> int \<Rightarrow> instant \<Rightarrow> int \<Rightarrow> bool" where
  "conflict cfg cl w searchMoment ei =
     (0 \<le> ei \<and> nat ei < length cl
      \<and> startAt (cl ! nat ei) < add_minute (nextSearchMoment searchMoment cfg) w)"

text \<open>What a validation call may end with: \<open>true\<close>, or a \<open>TimeSlotsFinderError\<close> that
  carries a reason.\<close>

definition thrown_or_true :: "error + bool \<Rightarrow> bool" where
  "thrown_or_true r = (r = Inr True \<or> (\<exists>reason. r = Inl (TimeSlotsFinderError reason) \<and> reason \<noteq> []))"

text \<open>A broken-down date-time with every field in its range.\<close>

definition well_formed :: "Civil \<Rightarrow> bool" where
  "well_formed c =
     (0 \<le> c_month c \<and> c_month c \<le> 11
      \<and> 1 \<le> c_date c \<and> c_date c \<le> daysInMonth (c_year c) (c_month c)
      \<and> 0 \<le> c_hour c \<and> c_hour c \<le> 23
      \<and> 0 \<le> c_minute c \<and> c_minute c \<le> 59
      \<and> 0 \<le> c_second c \<and> c_second c \<le> 59
      \<and> 0 \<le> c_ms c \<and> c_ms c \<le> 999)"

text \<open>The clock after \<open>m\<close> readings, and two clocks whose first \<open>n\<close> readings are the
  same.\<close>

definition later :: "nat \<Rightarrow> clock \<Rightarrow> clock" where
  "later m c = (\<lambda>k. c (k + m))"

definition agree :: "nat \<Rightarrow> clock \<Rightarrow> clock \<Rightarrow> bool" where
  "agree n c c' = (\<forall>k<n. c k = c' k)"

text \<open>One computation that reads the clock, then another that gets its result and the
  clock it left.\<close>

definition bind_clock ::
    "(clock \<Rightarrow> 'a \<times> clock) \<Rightarrow> ('a \<Rightarrow> clock \<Rightarrow> 'b \<times> clock) \<Rightarrow> clock \<Rightarrow> 'b \<times> clock" where
  "bind_clock F G = (\<lambda>c. case F c of (a, c1) \<Rightarrow> G a c1)"

text \<open>\<open>F\<close> takes at most \<open>n\<close> readings: on every clock it takes some \<open>m \<le> n\<close> readings,
  leaves the clock after them, and does the same with the same result on every clock
  that agrees on these \<open>m\<close> readings.\<close>

definition takes :: "(clock \<Rightarrow> 'a \<times> clock) \<Rightarrow> nat \<Rightarrow> bool" where
  "takes F n = (\<forall>c. \<exists>m\<le>n. F c = (fst (F c), later m c)
                  \<and> (\<forall>c'. agree m c c' \<longrightarrow> F c' = (fst (F c), later m c')))"

text \<open>The readings of a dayjs call that passes validation. Validating an unavailable
  period takes one reading for each end in \<open>_isPeriodMomentValid\<close> and, when the period
  gives years, one more for each end in \<open>dayjs(object)\<close>. Validation takes one reading
  in \<open>_checkTimeZone\<close> and then those of the periods. Resolving a period to an event
  takes four readings, so \<open>readings_before_boundaries\<close> is the number of readings taken
  when \<open>_computeBoundaries\<close> starts.\<close>

definition readings_of_period :: "PeriodMoment Period \<Rightarrow> nat" where
  "readings_of_period p = (if year (startAt p) = None then 2 else 4)"

definition readings_of_validation :: "TimeSlotsFinderConfiguration \<Rightarrow> nat" where
  "readings_of_validation configuration =
     1 + sum_list (map readings_of_period
                     (case unavailablePeriods configuration of None \<Rightarrow> [] | Some ps \<Rightarrow> ps))"

definition readings_before_boundaries :: "TimeSlotsFinderConfiguration \<Rightarrow> nat" where
  "readings_before_boundaries configuration =
     readings_of_validation configuration
     + 4 * length (case unavailablePeriods configuration of None \<Rightarrow> [] | Some ps \<Rightarrow> ps)"

section \<open>Inputs of the repository's tests\<close>

text \<open>Local time in the configured zone; months are numbered from 0, so month 9 is
  October.\<close>

definition local_time :: "int \<Rightarrow> int \<Rightarrow> int \<Rightarrow> int \<Rightarrow> int \<Rightarrow> instant" where
  "local_time y M d h mi =
     civil_instant \<lparr>c_year = y, c_month = M, c_date = d, c_hour = h, c_minute = mi,
                    c_second = 0, c_ms = 0\<rparr>"

text \<open>A time-zone database that holds the zone of the tests, and a clock that stands
  still.\<close>

definition zones :: "string \<Rightarrow> bool" where
  "zones tz = (tz = ''Europe/Paris'' \<or> tz = ''UTC'')"

definition clock_at :: "instant \<Rightarrow> clock" where
  "clock_at t = (\<lambda>k. t)"

text \<open>\<open>baseConfig\<close> of the test file: slots of 15 minutes on Fridays from 10:00 to
  20:00.\<close>

definition baseConfig :: TimeSlotsFinderConfiguration where
  "baseConfig =
     \<lparr>timeSlotDuration = 15,
      availablePeriods =
        [\<lparr>isoWeekDay = 5, shifts = [\<lparr>startTime = ''10:00'', endTime = ''20:00''\<rparr>]\<rparr>],
      slotStartMinuteStep = None,
      unavailablePeriods = None,
      minAvailableTimeBeforeSlot = None,
      minAvailableTimeAfterSlot = None,
      minTimeBeforeFirstSlot = None,
      maxDaysBeforeLastSlot = None,
      timeZone = ''Europe/Paris''\<rparr>"


text \<open>The configuration of the test of \<open>minAvailableTimeAfterSlot\<close>: \<open>baseConfig\<close>
  with 10 minutes after a slot.\<close>

definition afterConfig :: TimeSlotsFinderConfiguration where
  "afterConfig = baseConfig\<lparr>minAvailableTimeAfterSlot := Some 10\<rparr>"

text \<open>A clock whose first reading is \<open>t1\<close> and whose later readings are \<open>t2\<close>.\<close>

definition clock_then :: "instant \<Rightarrow> instant \<Rightarrow> clock" where
  "clock_then t1 t2 = (\<lambda>k. if k = 0 then t1 else t2)"

text \<open>Two shifts that overlap on Fridays, slots of one hour.\<close>

definition overlappingConfig :: TimeSlotsFinderConfiguration where
  "overlappingConfig =
     baseConfig
       \<lparr>timeSlotDuration := 60,
        availablePeriods :=
          [\<lparr>isoWeekDay = 5,
            shifts = [\<lparr>startTime = ''10:00'', endTime = ''12:00''\<rparr>,
                      \<lparr>startTime = ''11:00'', endTime = ''13:00''\<rparr>]\<rparr>]\<rparr>"

text \<open>Slots of 10 minutes every half hour, a Friday shift from 09:00 to 09:50, and a
  blocked hour from 10:00 to 11:00 on Friday 2020-10-16.\<close>

definition halfHourConfig :: TimeSlotsFinderConfiguration where
  "halfHourConfig =
     baseConfig
       \<lparr>timeSlotDuration := 10,
        availablePeriods :=
          [\<lparr>isoWeekDay = 5, shifts = [\<lparr>startTime = ''09:00'', endTime = ''09:50''\<rparr>]\<rparr>],
        slotStartMinuteStep := Some 30,
        unavailablePeriods :=
          Some [\<lparr>startAt = \<lparr>year = Some 2020, month = 9, day = 16, hour = Some 10,
                              minute = Some 0\<rparr>,
                  endAt = \<lparr>year = Some 2020, month = 9, day = 16, hour = Some 11,
                            minute = Some 0\<rparr>\<rparr>]\<rparr>"

text \<open>\<open>baseConfig\<close> with a blocked period from 12:30 to 14:00 on the 16th of the month
  that luxon numbers 10.\<close>

definition blockedConfig :: TimeSlotsFinderConfiguration where
  "blockedConfig =
     baseConfig
       \<lparr>unavailablePeriods :=
          Some [\<lparr>startAt = \<lparr>year = Some 2020, month = 10, day = 16, hour = Some 12,
                              minute = Some 30\<rparr>,
                  endAt = \<lparr>year = Some 2020, month = 10, day = 16, hour = Some 14,
                            minute = Some 0\<rparr>\<rparr>]\<rparr>"

text \<open>A yearly period whose end, the 5th of month 1, comes before its start, the 20th
  of month 11.\<close>

definition wrappingPeriod :: "PeriodMoment Period" where
  "wrappingPeriod =
     \<lparr>startAt = \<lparr>year = None, month = 11, day = 20, hour = None, minute = None\<rparr>,
      endAt = \<lparr>year = None, month = 1, day = 5, hour = None, minute = None\<rparr>\<rparr>"

text \<open>The slots of a call that returned, and the overlap of two half-open
  intervals.\<close>

definition returned_slots :: "(error + TimeSlot list) option \<Rightarrow> TimeSlot list" where
  "returned_slots r = (case r of Some (Inr slots) \<Rightarrow> slots | _ \<Rightarrow> [])"

definition overlaps :: "instant \<Rightarrow> instant \<Rightarrow> instant \<Rightarrow> instant \<Rightarrow> bool" where
  "overlaps s e s' e' = (s < e' \<and> s' < e)"

text \<open>\<open>baseConfig\<close> with a horizon of one day.\<close>

definition horizonConfig :: TimeSlotsFinderConfiguration where
  "horizonConfig = baseConfig\<lparr>maxDaysBeforeLastSlot := Some 1\<rparr>"

text \<open>A clock that starts at \<open>t\<close> and is one millisecond further at each reading; a
  clock that follows \<open>c\<close> for \<open>n\<close> readings and reads 0 from then on; and
  \<open>blockedConfig\<close> with a horizon of 30 days.\<close>

definition clock_ticking :: "instant \<Rightarrow> clock" where
  "clock_ticking t = (\<lambda>k. t + int k)"

definition clock_until :: "nat \<Rightarrow> clock \<Rightarrow> clock" where
  "clock_until n c = (\<lambda>k. if k < n then c k else 0)"

definition blockedHorizonConfig :: TimeSlotsFinderConfiguration where
  "blockedHorizonConfig = blockedConfig\<lparr>maxDaysBeforeLastSlot := Some 30\<rparr>"

section \<open>Properties of the shift merge\<close>

lemma localeCompare_ge0: "(localeCompare a b \<ge> 0) = (b \<le> a)"
  by (auto simp: localeCompare_def)

lemma localeCompare_lt0: "(localeCompare a b < 0) = (a < b)"
  by (auto simp: localeCompare_def)

lemma mergeLoop_merge_rec:
  "i \<le> length xs \<Longrightarrow> mergeLoop i xs = take i xs @ merge_rec (drop i xs)"
proof (induction i xs rule: mergeLoop.induct)
  case (1 i xs)
  show ?case
  proof (cases "i + 1 < length xs")
    case False
    then have "length (drop i xs) \<le> 1" by simp
    then have "merge_rec (drop i xs) = drop i xs"
      by (cases "drop i xs" rule: merge_rec.cases) auto
    with False show ?thesis by (subst mergeLoop.simps) simp
  next
    case True
    then have d: "drop i xs = xs ! i # xs ! (i + 1) # drop (i + 2) xs"
      by (simp add: Cons_nth_drop_Suc)
    show ?thesis
    proof (cases "startTime (xs ! (i + 1)) \<le> endTime (xs ! i)")
      case False
      with True 1 have "mergeLoop i xs = take (i + 1) xs @ merge_rec (drop (i + 1) xs)"
        by (subst mergeLoop.simps) (simp add: localeCompare_ge0)
      also have "take (i + 1) xs = take i xs @ [xs ! i]"
        using True by (simp add: take_Suc_conv_app_nth)
      also have "drop (i + 1) xs = xs ! (i + 1) # drop (i + 2) xs"
        using True by (simp add: Cons_nth_drop_Suc)
      finally show ?thesis using False d by simp
    next
      case ov: True
      define a where "a = (if endTime (xs ! i) < endTime (xs ! (i + 1))
             then \<lparr>startTime = startTime (xs ! i), endTime = endTime (xs ! (i + 1))\<rparr> else xs ! i)"
      define upd where "upd = (if localeCompare (endTime (xs ! i)) (endTime (xs ! (i + 1))) < 0
                   then xs[i := \<lparr>startTime = startTime (xs ! i),
                                             endTime = endTime (xs ! (i + 1))\<rparr>]
                   else xs)"
      define sp where "sp = take (i + 1) upd @ drop (i + 2) upd"
      have lu: "length upd = length xs" by (simp add: upd_def)
      have ui: "upd ! i = a" using True by (simp add: upd_def a_def localeCompare_lt0)
      have ti: "take i upd = take i xs" by (simp add: upd_def)
      have di: "drop (i + 2) upd = drop (i + 2) xs" by (simp add: upd_def)
      have sp_eq: "sp = take i xs @ a # drop (i + 2) xs"
        using True lu ui ti di by (simp add: sp_def take_Suc_conv_app_nth)
      have "mergeLoop i xs = mergeLoop i sp"
        using True ov by (subst mergeLoop.simps) (simp add: localeCompare_ge0 upd_def sp_def Let_def)
      also have "\<dots> = take i sp @ merge_rec (drop i sp)"
      proof -
        have ge: "0 \<le> localeCompare (endTime (xs ! i)) (startTime (xs ! (i + 1)))"
          using ov by (simp add: localeCompare_ge0)
        have "i \<le> length sp" using True lu by (simp add: sp_def)
        then show ?thesis
          unfolding sp_def upd_def by (rule 1(1)[OF True ge refl])
      qed
      also have "take i sp = take i xs" using True by (simp add: sp_eq)
      also have "drop i sp = a # drop (i + 2) xs" using True by (simp add: sp_eq)
      finally show ?thesis using d ov by (simp add: a_def)
    qed
  qed
qed

lemma merge_rec_hd:
  "xs \<noteq> [] \<Longrightarrow> merge_rec xs \<noteq> [] \<and> startTime (hd (merge_rec xs)) = startTime (hd xs)"
  by (induction xs rule: merge_rec.induct) auto

lemma merge_rec_separated: "separated (merge_rec xs)"
proof (induction xs rule: merge_rec.induct)
  case (1 a b rest)
  show ?case
  proof (cases "startTime b \<le> endTime a")
    case True
    with 1 show ?thesis by simp
  next
    case False
    with 1 have s: "separated (merge_rec (b # rest))" by simp
    from merge_rec_hd[of "b # rest"] obtain c cs where
      c: "merge_rec (b # rest) = c # cs" "startTime c = startTime b"
      by (cases "merge_rec (b # rest)") auto
    with s False show ?thesis by simp
  qed
qed simp_all

lemma merge_rec_starts:
  "startTime ` set (merge_rec xs) \<subseteq> startTime ` set xs"
proof (induction xs rule: merge_rec.induct)
  case (1 a b rest)
  show ?case
  proof (cases "startTime b \<le> endTime a")
    case True
    define a' where "a' = (if endTime a < endTime b
        then \<lparr>startTime = startTime a, endTime = endTime b\<rparr> else a)"
    have "startTime ` set (merge_rec (a' # rest)) \<subseteq> startTime ` set (a' # rest)"
      unfolding a'_def by (rule 1(1)[OF True])
    moreover have "startTime a' = startTime a" by (simp add: a'_def)
    moreover have "merge_rec (a # b # rest) = merge_rec (a' # rest)"
      using True by (simp add: a'_def)
    ultimately show ?thesis by auto
  next
    case False
    have "startTime ` set (merge_rec (b # rest)) \<subseteq> startTime ` set (b # rest)"
      by (rule 1(2)[OF False])
    moreover have "merge_rec (a # b # rest) = a # merge_rec (b # rest)"
      using False by simp
    ultimately show ?thesis by auto
  qed
qed simp_all

lemma merge_rec_sorted:
  "sorted (map startTime xs) \<Longrightarrow> sorted (map startTime (merge_rec xs))"
proof (induction xs rule: merge_rec.induct)
  case (1 a b rest)
  show ?case
  proof (cases "startTime b \<le> endTime a")
    case True
    with 1 show ?thesis by auto
  next
    case False
    from 1(3) have sb: "sorted (map startTime (b # rest))" by simp
    with 1 False have s: "sorted (map startTime (merge_rec (b # rest)))" by simp
    have "startTime ` set (merge_rec (b # rest)) \<subseteq> startTime ` set (b # rest)"
      by (rule merge_rec_starts)
    with 1(3) s False show ?thesis by auto
  qed
qed simp_all

lemma merge_rec_id: "separated xs \<Longrightarrow> merge_rec xs = xs"
  by (induction xs rule: merge_rec.induct) auto


lemma mergeOverlappingShifts_merged:
  "2 \<le> length shs \<Longrightarrow> mergeOverlappingShifts shs = merge_rec (sort_key startTime shs)"
  by (simp add: mergeOverlappingShifts_def mergeLoop_merge_rec)

text \<open>
  Claim C6. Merging is idempotent: merging the merged shifts again returns the same
  sequence, for every list of shifts; and a list of fewer than two shifts is returned
  as it is.
\<close>

theorem merge_idempotent:
  "mergeOverlappingShifts (mergeOverlappingShifts shs) = mergeOverlappingShifts shs
   \<and> (length shs < 2 \<longrightarrow> mergeOverlappingShifts shs = shs)"
proof (cases "length shs < 2")
  case True
  then show ?thesis by (simp add: mergeOverlappingShifts_def)
next
  case False
  define r where "r = merge_rec (sort_key startTime shs)"
  have r: "mergeOverlappingShifts shs = r"
    using False by (simp add: mergeOverlappingShifts_merged r_def)
  have sep: "separated r" by (simp add: r_def merge_rec_separated)
  have srt: "sorted (map startTime r)"
    unfolding r_def by (rule merge_rec_sorted) simp
  have "mergeOverlappingShifts r = r"
  proof (cases "length r < 2")
    case True
    then show ?thesis by (simp add: mergeOverlappingShifts_def)
  next
    case False
    then have "mergeOverlappingShifts r = merge_rec (sort_key startTime r)"
      by (simp add: mergeOverlappingShifts_merged)
    also have "sort_key startTime r = r" using srt by (rule sort_key_id_if_sorted)
    also have "merge_rec r = r" using sep by (rule merge_rec_id)
    finally show ?thesis .
  qed
  with r False show ?thesis by simp
qed

theorem merge_idempotent_witness:
  "mergeOverlappingShifts (mergeOverlappingShifts [\<lparr>startTime = ''10:00'', endTime = ''12:00''\<rparr>])
     = mergeOverlappingShifts [\<lparr>startTime = ''10:00'', endTime = ''12:00''\<rparr>]
   \<and> length [\<lparr>startTime = ''10:00'', endTime = ''12:00''\<rparr>] < 2
   \<and> mergeOverlappingShifts [\<lparr>startTime = ''10:00'', endTime = ''12:00''\<rparr>]
       = [\<lparr>startTime = ''10:00'', endTime = ''12:00''\<rparr>]"
  using merge_idempotent [of "[\<lparr>startTime = ''10:00'', endTime = ''12:00''\<rparr>]"] by simp

section \<open>The per-shift loop of the dayjs search\<close>

lemma shiftLoop_dayjs_stop:
  "\<not> searchMoment \<le> searchEndMoment \<Longrightarrow>
   shiftLoop_dayjs cfg cl w searchEndMoment searchMoment ei ts = Some ts"
  by (subst shiftLoop_dayjs.simps) simp

lemma shiftLoop_dayjs_skip:
  "searchMoment \<le> searchEndMoment \<Longrightarrow> conflict cfg cl w searchMoment ei \<Longrightarrow>
   shiftLoop_dayjs cfg cl w searchEndMoment searchMoment ei ts =
   shiftLoop_dayjs cfg cl w searchEndMoment (endAt (cl ! nat ei)) (ei + 1) ts"
  by (subst shiftLoop_dayjs.simps) (simp add: conflict_def Let_def)

lemma shiftLoop_dayjs_emit:
  "searchMoment \<le> searchEndMoment \<Longrightarrow> \<not> conflict cfg cl w searchMoment ei \<Longrightarrow>
   shiftLoop_dayjs cfg cl w searchEndMoment searchMoment ei ts =
   shiftLoop_dayjs cfg cl w searchEndMoment
     (fst (pushNewSlot (nextSearchMoment searchMoment cfg) cfg)) ei
     (ts @ [snd (pushNewSlot (nextSearchMoment searchMoment cfg) cfg)])"
  by (subst shiftLoop_dayjs.simps) (auto simp: conflict_def Let_def split: prod.splits)

lemma shiftLoop_dayjs_rule:
  assumes run: "shiftLoop_dayjs cfg cl w se sm ei ts = Some r"
    and init: "I sm ei ts"
    and skip: "\<And>sm ei ts. I sm ei ts \<Longrightarrow> sm \<le> se \<Longrightarrow> conflict cfg cl w sm ei \<Longrightarrow>
                 I (endAt (cl ! nat ei)) (ei + 1) ts"
    and emit: "\<And>sm ei ts. I sm ei ts \<Longrightarrow> sm \<le> se \<Longrightarrow> \<not> conflict cfg cl w sm ei \<Longrightarrow>
                 I (fst (pushNewSlot (nextSearchMoment sm cfg) cfg)) ei
                   (ts @ [snd (pushNewSlot (nextSearchMoment sm cfg) cfg)])"
    and stop: "\<And>sm ei ts. I sm ei ts \<Longrightarrow> \<not> sm \<le> se \<Longrightarrow> R ts"
  shows "R r"
proof -
  have "cfg = cfg \<and> cl = cl \<and> w = w \<and> se = se \<longrightarrow> I sm ei ts \<longrightarrow> R r"
  proof (rule shiftLoop_dayjs.raw_induct
      [where P = "\<lambda>cfg' cl' w' se' sm ei ts r.
                    cfg' = cfg \<and> cl' = cl \<and> w' = w \<and> se' = se \<longrightarrow> I sm ei ts \<longrightarrow> R r",
       OF _ run])
    fix loop :: "TimeSlotsFinderConfiguration \<Rightarrow> instant Period list \<Rightarrow> int \<Rightarrow> instant \<Rightarrow> instant
                   \<Rightarrow> int \<Rightarrow> TimeSlot list \<Rightarrow> TimeSlot list option"
    fix cfg' cl' w' se' sm ei ts r
    assume IH: "\<And>cfg' cl' w' se' sm ei ts r. loop cfg' cl' w' se' sm ei ts = Some r \<Longrightarrow>
        cfg' = cfg \<and> cl' = cl \<and> w' = w \<and> se' = se \<longrightarrow> I sm ei ts \<longrightarrow> R r"
    assume body: "(if sm \<le> se'
      then let focusedEvent =
                 if 0 \<le> ei \<and> nat ei < length cl'
                 then Some (cl' ! nat ei) else None;
               searchMoment1 = nextSearchMoment sm cfg';
               freeTimeLimitMoment = add_minute searchMoment1 w'
           in case case focusedEvent of None \<Rightarrow> None
                   | Some ev \<Rightarrow>
                       if startAt ev < freeTimeLimitMoment then Some ev
                       else None of
              None \<Rightarrow>
                case pushNewSlot searchMoment1 cfg' of
                (newSearchMoment, timeSlot) \<Rightarrow>
                  loop cfg' cl' w' se' newSearchMoment ei (ts @ [timeSlot])
              | Some ev \<Rightarrow>
                  loop cfg' cl' w' se' (endAt ev) (ei + 1) ts
      else Some ts) = Some r"
    show "cfg' = cfg \<and> cl' = cl \<and> w' = w \<and> se' = se \<longrightarrow> I sm ei ts \<longrightarrow> R r"
    proof (intro impI, elim conjE)
      assume eqs: "cfg' = cfg" "cl' = cl" "w' = w" "se' = se" and inv: "I sm ei ts"
      show "R r"
      proof (cases "sm \<le> se")
        case False
        with body eqs have "r = ts" by simp
        with stop[OF inv False] show ?thesis by simp
      next
        case le: True
        show ?thesis
        proof (cases "conflict cfg cl w sm ei")
          case True
          with le body eqs have "loop cfg cl w se (endAt (cl ! nat ei)) (ei + 1) ts = Some r"
            by (simp add: conflict_def Let_def)
          from IH[OF this] skip[OF inv le True] show ?thesis by simp
        next
          case False
          with le body eqs
          have "loop cfg cl w se (fst (pushNewSlot (nextSearchMoment sm cfg) cfg)) ei
                  (ts @ [snd (pushNewSlot (nextSearchMoment sm cfg) cfg)]) = Some r"
            by (auto simp: conflict_def Let_def split: prod.splits if_splits)
          from IH[OF this] emit[OF inv le False] show ?thesis by simp
        qed
      qed
    qed
  qed
  with init show ?thesis by simp
qed

lemma shiftLoop_dayjs_prefix:
  assumes "shiftLoop_dayjs cfg cl w se sm ei ts = Some r"
  shows "\<exists>rest. r = ts @ rest"
  by (rule shiftLoop_dayjs_rule[OF assms, where I = "\<lambda>sm ei ts'. \<exists>rest. ts' = ts @ rest"]) auto






lemma set_millisecond_0_ge: "t - 999 \<le> set_millisecond_0 t"
proof -
  have "t mod 1000 < 1000" by simp
  then show ?thesis unfolding set_millisecond_0_def by linarith
qed

lemma nextSearchMoment_ge:
  assumes "1 \<le> orElse (slotStartMinuteStep cfg) 5"
  shows "m - 999 \<le> nextSearchMoment m cfg"
proof -
  define nm where "nm = (if second_of m \<noteq> 0 then add_minute (startOf_minute m) 1 else m)"
  have "m mod 60000 < 60000" by simp
  then have "m \<le> nm" unfolding nm_def add_minute_def startOf_minute_def by auto
  moreover have "0 \<le> (x::int) mod orElse (slotStartMinuteStep cfg) 5" for x
    using assms by simp
  ultimately have "m \<le> add_minute nm ((orElse (slotStartMinuteStep cfg) 5 -
      minute_of (add_minute nm (orElse (minAvailableTimeBeforeSlot cfg) 0)) mod orElse (slotStartMinuteStep cfg) 5)
        mod orElse (slotStartMinuteStep cfg) 5)"
    unfolding add_minute_def
    by (smt (verit) mult_nonneg_nonneg)
  then show ?thesis
    using set_millisecond_0_ge
    unfolding nextSearchMoment_def Let_def nm_def[symmetric]
    by (smt (verit))
qed

lemma pushNewSlot_fst_gt:
  assumes "1 \<le> timeSlotDuration cfg" "0 \<le> orElse (minAvailableTimeBeforeSlot cfg) 0"
  shows "x + 60000 \<le> fst (pushNewSlot x cfg)"
proof -
  have "60000 \<le> orElse (minAvailableTimeBeforeSlot cfg) 0 * 60000 + timeSlotDuration cfg * 60000"
    using assms by linarith
  moreover have "0 \<le> max (orElse (minAvailableTimeAfterSlot cfg) 0 - orElse (minAvailableTimeBeforeSlot cfg) 0) 0 * 60000"
    by simp
  ultimately show ?thesis
    unfolding pushNewSlot_def Let_def add_minute_def fst_conv by linarith
qed

lemma shiftLoop_dayjs_terminates:
  assumes dur: "1 \<le> timeSlotDuration cfg"
    and before: "0 \<le> orElse (minAvailableTimeBeforeSlot cfg) 0"
    and step: "1 \<le> orElse (slotStartMinuteStep cfg) 5"
  shows "\<exists>r. shiftLoop_dayjs cfg cl w se sm ei ts = Some r"
proof -
  define R where "R = measures [\<lambda>(sm :: int, ei :: int, ts :: TimeSlot list). nat (int (length cl) - ei),
                                \<lambda>(sm, ei, ts). nat (se - sm + 1)]"
  have wf: "wf R" by (simp add: R_def)
  have "\<exists>r. shiftLoop_dayjs cfg cl w se (fst x) (fst (snd x)) (snd (snd x)) = Some r" for x
  proof (induction x rule: wf_induct_rule[OF wf])
    fix x :: "int \<times> int \<times> TimeSlot list"
    assume IH: "\<And>y. (y, x) \<in> R \<Longrightarrow>
      \<exists>r. shiftLoop_dayjs cfg cl w se (fst y) (fst (snd y)) (snd (snd y)) = Some r"
    obtain sm ei ts where x: "x = (sm, ei, ts)" by (cases x) auto
    show "\<exists>r. shiftLoop_dayjs cfg cl w se (fst x) (fst (snd x)) (snd (snd x)) = Some r"
    proof (cases "sm \<le> se")
      case False
      then show ?thesis by (simp add: x shiftLoop_dayjs_stop)
    next
      case le: True
      show ?thesis
      proof (cases "conflict cfg cl w sm ei")
        case True
        then have "nat (int (length cl) - (ei + 1)) < nat (int (length cl) - ei)"
          by (auto simp: conflict_def)
        then have "((endAt (cl ! nat ei), ei + 1, ts), x) \<in> R"
          by (simp add: R_def x)
        from IH[OF this] show ?thesis
          using le True by (simp add: x shiftLoop_dayjs_skip)
      next
        case False
        define sm' where "sm' = fst (pushNewSlot (nextSearchMoment sm cfg) cfg)"
        have "sm < sm'"
          using pushNewSlot_fst_gt[OF dur before, of "nextSearchMoment sm cfg"]
            nextSearchMoment_ge[OF step, of sm]
          unfolding sm'_def by linarith
        with le have "nat (se - sm' + 1) < nat (se - sm + 1)" by linarith
        then have "((sm', ei, ts @ [snd (pushNewSlot (nextSearchMoment sm cfg) cfg)]), x) \<in> R"
          by (simp add: R_def x)
        from IH[OF this] show ?thesis
          using le False by (simp add: x shiftLoop_dayjs_emit sm'_def)
      qed
    qed
  qed
  from this[of "(sm, ei, ts)"] show ?thesis by simp
qed

lemma getAvailableTimeSlotsForShift_dayjs_returns:
  assumes "1 \<le> timeSlotDuration cfg" "0 \<le> orElse (minAvailableTimeBeforeSlot cfg) 0"
    "1 \<le> orElse (slotStartMinuteStep cfg) 5"
  shows "\<exists>r. getAvailableTimeSlotsForShift_dayjs cfg events from to = Some r"
  unfolding getAvailableTimeSlotsForShift_dayjs_def Let_def
  by (rule shiftLoop_dayjs_terminates[OF assms])

lemma forEachShift_dayjs_returns:
  assumes "1 \<le> timeSlotDuration cfg" "0 \<le> orElse (minAvailableTimeBeforeSlot cfg) 0"
    "1 \<le> orElse (slotStartMinuteStep cfg) 5"
  shows "\<exists>r. forEachShift_dayjs cfg events ff lt fm shs ts = Some r"
proof (induction shs arbitrary: ts)
  case Nil
  then show ?case by simp
next
  case (Cons sh shs)
  show ?case
  proof (cases "getMomentsFromShift_dayjs fm sh")
    case None
    then show ?thesis using Cons by simp
  next
    case (Some moments)
    obtain found where "getAvailableTimeSlotsForShift_dayjs cfg events
        (max ff (startAt moments)) (min lt (endAt moments)) = Some found"
      using getAvailableTimeSlotsForShift_dayjs_returns[OF assms] by blast
    then show ?thesis using Some Cons by (simp add: Let_def)
  qed
qed

lemma dayLoop_dayjs_returns:
  assumes "1 \<le> timeSlotDuration cfg" "0 \<le> orElse (minAvailableTimeBeforeSlot cfg) 0"
    "1 \<le> orElse (slotStartMinuteStep cfg) 5"
  shows "\<exists>r. dayLoop_dayjs cfg events ff lt fm ts = Some r"
  using assms
proof (induction cfg events ff lt fm ts rule: dayLoop_dayjs.induct)
  case (1 cfg events ff lt fm ts)
  show ?case
  proof (cases "fm < lt")
    case False
    then show ?thesis by (subst dayLoop_dayjs.simps) simp
  next
    case True
    have "\<exists>ts'. (case getWeekDayConfigForMoment cfg fm of
                 None \<Rightarrow> Some ts
               | Some weekDayConfig \<Rightarrow>
                   forEachShift_dayjs cfg events ff lt fm (shifts weekDayConfig) ts) = Some ts'"
      using forEachShift_dayjs_returns[OF 1(2,3,4)]
      by (cases "getWeekDayConfigForMoment cfg fm") simp_all
    then obtain ts' where day: "(case getWeekDayConfigForMoment cfg fm of
                 None \<Rightarrow> Some ts
               | Some weekDayConfig \<Rightarrow>
                   forEachShift_dayjs cfg events ff lt fm (shifts weekDayConfig) ts) = Some ts'"
      by blast
    from 1(1)[OF True day 1(2,3,4)] show ?thesis
      using True day by (subst dayLoop_dayjs.simps) simp
  qed
qed

lemma checkPrimitiveValue_dayjs_Inr:
  assumes "checkPrimitiveValue_dayjs zk cfg c = (Inr v, c')"
  shows "1 \<le> timeSlotDuration cfg"
    and "nullOrBetween 1 30 (slotStartMinuteStep cfg)"
    and "nullOrGreaterThanOrEqualTo 0 (minAvailableTimeBeforeSlot cfg)"
    and "nullOrGreaterThanOrEqualTo 0 (minAvailableTimeAfterSlot cfg)"
    and "v = True"
  using assms
  by (auto simp: checkPrimitiveValue_dayjs_def split: if_splits prod.splits sum.splits)

lemma isConfigurationValid_dayjs_Inr:
  assumes "isConfigurationValid_dayjs zk cfg c = (Inr v, c')"
  shows "1 \<le> timeSlotDuration cfg"
    and "nullOrBetween 1 30 (slotStartMinuteStep cfg)"
    and "nullOrGreaterThanOrEqualTo 0 (minAvailableTimeBeforeSlot cfg)"
    and "nullOrGreaterThanOrEqualTo 0 (minAvailableTimeAfterSlot cfg)"
proof -
  from assms obtain v1 c1 where "checkPrimitiveValue_dayjs zk cfg c = (Inr v1, c1)"
    by (auto simp: isConfigurationValid_dayjs_def split: prod.splits sum.splits)
  from checkPrimitiveValue_dayjs_Inr[OF this]
  show "1 \<le> timeSlotDuration cfg"
    and "nullOrBetween 1 30 (slotStartMinuteStep cfg)"
    and "nullOrGreaterThanOrEqualTo 0 (minAvailableTimeBeforeSlot cfg)"
    and "nullOrGreaterThanOrEqualTo 0 (minAvailableTimeAfterSlot cfg)"
    by simp_all
qed

lemma checkSearchParameters_dayjs_Inr:
  assumes "checkSearchParameters_dayjs zk cfg from to c = (Inr used, c')"
  shows "used = cfg\<lparr>availablePeriods :=
                    mergeOverlappingShiftsInAvailablePeriods (availablePeriods cfg)\<rparr>"
    and "\<exists>f t. from = Some f \<and> to = Some t \<and> f \<le> t"
    and "1 \<le> timeSlotDuration used"
    and "1 \<le> orElse (slotStartMinuteStep used) 5"
    and "0 \<le> orElse (minAvailableTimeBeforeSlot used) 0"
    and "0 \<le> orElse (minAvailableTimeAfterSlot used) 0"
proof -
  from assms obtain f t where ft: "from = Some f" "to = Some t" "f \<le> t"
    by (auto simp: checkSearchParameters_dayjs_def split: option.splits if_splits)
  then show "\<exists>f t. from = Some f \<and> to = Some t \<and> f \<le> t" by blast
  from assms ft obtain v where
    used: "used = cfg\<lparr>availablePeriods :=
                    mergeOverlappingShiftsInAvailablePeriods (availablePeriods cfg)\<rparr>"
    and valid: "isConfigurationValid_dayjs zk used c = (Inr v, c')"
    by (auto simp: checkSearchParameters_dayjs_def Let_def split: prod.splits sum.splits)
  show "used = cfg\<lparr>availablePeriods :=
                    mergeOverlappingShiftsInAvailablePeriods (availablePeriods cfg)\<rparr>"
    by (rule used)
  from isConfigurationValid_dayjs_Inr[OF valid]
  show "1 \<le> timeSlotDuration used"
    and "1 \<le> orElse (slotStartMinuteStep used) 5"
    and "0 \<le> orElse (minAvailableTimeBeforeSlot used) 0"
    and "0 \<le> orElse (minAvailableTimeAfterSlot used) 0"
    by (auto simp: nullOrBetween_def nullOrGreaterThanOrEqualTo_def orElse_def split: option.splits)
qed

lemma getAvailableTimeSlotsInCalendar_dayjs_returns:
  "\<exists>r. getAvailableTimeSlotsInCalendar_dayjs zk cfg from to c = Some r"
proof (cases "checkSearchParameters_dayjs zk cfg from to c")
  case (Pair res c1)
  show ?thesis
  proof (cases res)
    case (Inl e)
    with Pair show ?thesis by (simp add: getAvailableTimeSlotsInCalendar_dayjs_def)
  next
    case (Inr used)
    note ok = checkSearchParameters_dayjs_Inr[OF Pair[unfolded Inr]]
    from ok(2) obtain f t where ft: "from = Some f" "to = Some t" by blast
    have "\<exists>r. dayLoop_dayjs used events ff lt fm [] = Some r" for events ff lt fm
      by (rule dayLoop_dayjs_returns[OF ok(3) ok(5) ok(4)])
    then show ?thesis
      using Pair Inr ft
      by (auto simp: getAvailableTimeSlotsInCalendar_dayjs_def split: prod.splits)
  qed
qed





section \<open>Alignment of the slot starts\<close>




section \<open>The bound of the per-shift loop\<close>


section \<open>The result of the validation\<close>

lemma isAvailablePeriodValid_result: "thrown_or_true (isAvailablePeriodValid p i)"
  by (auto simp: isAvailablePeriodValid_def thrown_or_true_def split: option.splits)

lemma checkAvailablePeriods_result: "thrown_or_true (checkAvailablePeriods ps i)"
proof (induction ps arbitrary: i)
  case Nil
  then show ?case by (simp add: thrown_or_true_def)
next
  case (Cons p ps)
  from isAvailablePeriodValid_result[of p i] Cons show ?case
    by (auto simp: thrown_or_true_def split: sum.splits)
qed

lemma checkUnavailablePeriods_dayjs_result:
  "thrown_or_true (fst (checkUnavailablePeriods_dayjs ps i c))"
proof (induction ps arbitrary: i c)
  case Nil
  then show ?case by (simp add: thrown_or_true_def)
next
  case (Cons p ps)
  then show ?case
    by (auto simp: thrown_or_true_def split: prod.splits)
qed

lemma checkUnavailablePeriods_luxon_result:
  "thrown_or_true (fst (checkUnavailablePeriods_luxon ps i c))"
proof (induction ps arbitrary: i c)
  case Nil
  then show ?case by (simp add: thrown_or_true_def)
next
  case (Cons p ps)
  then show ?case
    by (auto simp: thrown_or_true_def split: prod.splits)
qed

lemma checkTimeZone_dayjs_result:
  "fst (checkTimeZone_dayjs zk tz c) = Inr () \<or>
   (\<exists>reason. fst (checkTimeZone_dayjs zk tz c) = Inl (TimeSlotsFinderError reason) \<and> reason \<noteq> [])"
  by (auto simp: checkTimeZone_dayjs_def split: prod.splits)

lemma checkPrimitiveValue_dayjs_result:
  "thrown_or_true (fst (checkPrimitiveValue_dayjs zk cfg c))"
  using checkTimeZone_dayjs_result[of zk "timeZone cfg" c]
  by (auto simp: checkPrimitiveValue_dayjs_def thrown_or_true_def lead_horizon_message_def
      split: prod.splits sum.splits)

lemma checkPrimitiveValue_luxon_result:
  "thrown_or_true (fst (checkPrimitiveValue_luxon cfg c))"
  by (auto simp: checkPrimitiveValue_luxon_def checkTimeZone_luxon_def thrown_or_true_def
      lead_horizon_message_def split: prod.splits sum.splits)

lemma isConfigurationValid_dayjs_result:
  "thrown_or_true (fst (isConfigurationValid_dayjs zoneKnown configuration c))"
proof (cases "checkPrimitiveValue_dayjs zoneKnown configuration c")
  case (Pair r1 c1)
  note p = checkPrimitiveValue_dayjs_result[of zoneKnown configuration c, unfolded Pair fst_conv]
  show ?thesis
  proof (cases r1)
    case (Inl e)
    with Pair p show ?thesis by (simp add: isConfigurationValid_dayjs_def)
  next
    case (Inr v)
    note a = checkAvailablePeriods_result[of "availablePeriods configuration" 0]
    show ?thesis
    proof (cases "checkAvailablePeriods (availablePeriods configuration) 0")
      case (Inl e)
      with Pair Inr a show ?thesis by (simp add: isConfigurationValid_dayjs_def)
    next
      case Inr2: (Inr v2)
      show ?thesis
      proof (cases "unavailablePeriods configuration")
        case None
        with Pair Inr Inr2 show ?thesis
          by (simp add: isConfigurationValid_dayjs_def thrown_or_true_def)
      next
        case (Some periods)
        obtain r3 c3 where u: "checkUnavailablePeriods_dayjs periods 0 c1 = (r3, c3)"
          by (cases "checkUnavailablePeriods_dayjs periods 0 c1") auto
        from checkUnavailablePeriods_dayjs_result[of periods 0 c1] u
        have "thrown_or_true r3" by simp
        with Pair Inr Inr2 Some u show ?thesis
          by (cases r3) (simp_all add: isConfigurationValid_dayjs_def thrown_or_true_def)
      qed
    qed
  qed
qed

lemma isConfigurationValid_luxon_result:
  "thrown_or_true (fst (isConfigurationValid_luxon configuration c))"
proof (cases "checkPrimitiveValue_luxon configuration c")
  case (Pair r1 c1)
  note p = checkPrimitiveValue_luxon_result[of configuration c, unfolded Pair fst_conv]
  show ?thesis
  proof (cases r1)
    case (Inl e)
    with Pair p show ?thesis by (simp add: isConfigurationValid_luxon_def)
  next
    case (Inr v)
    note a = checkAvailablePeriods_result[of "availablePeriods configuration" 0]
    show ?thesis
    proof (cases "checkAvailablePeriods (availablePeriods configuration) 0")
      case (Inl e)
      with Pair Inr a show ?thesis by (simp add: isConfigurationValid_luxon_def)
    next
      case Inr2: (Inr v2)
      show ?thesis
      proof (cases "unavailablePeriods configuration")
        case None
        with Pair Inr Inr2 show ?thesis
          by (simp add: isConfigurationValid_luxon_def thrown_or_true_def)
      next
        case (Some periods)
        obtain r3 c3 where u: "checkUnavailablePeriods_luxon periods 0 c1 = (r3, c3)"
          by (cases "checkUnavailablePeriods_luxon periods 0 c1") auto
        from checkUnavailablePeriods_luxon_result[of periods 0 c1] u
        have "thrown_or_true r3" by simp
        with Pair Inr Inr2 Some u show ?thesis
          by (cases r3) (simp_all add: isConfigurationValid_luxon_def thrown_or_true_def)
      qed
    qed
  qed
qed

text \<open>
  Claim C9. \<open>isConfigurationValid\<close> never returns \<open>false\<close>: for every configuration
  (and every time-zone database and clock) it returns \<open>true\<close> or throws a
  \<open>TimeSlotsFinderError\<close> with a non-empty reason, in the dayjs file and in the luxon
  file.
\<close>

theorem isConfigurationValid_never_false:
  "thrown_or_true (fst (isConfigurationValid_dayjs zoneKnown configuration c))
   \<and> thrown_or_true (fst (isConfigurationValid_luxon configuration c))
   \<and> fst (isConfigurationValid_dayjs zoneKnown configuration c) \<noteq> Inr False
   \<and> fst (isConfigurationValid_luxon configuration c) \<noteq> Inr False"
  using isConfigurationValid_dayjs_result[of zoneKnown configuration c]
    isConfigurationValid_luxon_result[of configuration c]
  by (auto simp: thrown_or_true_def)

section \<open>Overlapping shifts\<close>

text \<open>
  Claim C10. There is a configuration with overlapping shifts on a weekday that
  \<open>isConfigurationValid\<close> rejects (the merge shortens the list of shifts), while the
  dayjs search accepts the same configuration and returns slots:
  \<open>_checkSearchParameters\<close> merges the shifts first and validates the merged copy.
\<close>

theorem overlapping_shifts_accepted:
  "mergeOverlappingShifts [\<lparr>startTime = ''10:00'', endTime = ''12:00''\<rparr>,
                           \<lparr>startTime = ''11:00'', endTime = ''13:00''\<rparr>]
     = [\<lparr>startTime = ''10:00'', endTime = ''13:00''\<rparr>]
   \<and> fst (isConfigurationValid_dayjs zones overlappingConfig (clock_at (local_time 2020 9 15 18 0)))
     = Inl (TimeSlotsFinderError (''Some shifts are overlapping for available period '' @ numero 0))
   \<and> fst (checkSearchParameters_dayjs zones overlappingConfig
             (Some (local_time 2020 9 16 0 0)) (Some (local_time 2020 9 17 0 0))
             (clock_at (local_time 2020 9 15 18 0)))
     = Inr (overlappingConfig
              \<lparr>availablePeriods :=
                 [\<lparr>isoWeekDay = 5,
                   shifts = [\<lparr>startTime = ''10:00'', endTime = ''13:00''\<rparr>]\<rparr>]\<rparr>)
   \<and> getAvailableTimeSlotsInCalendar_dayjs zones overlappingConfig
         (Some (local_time 2020 9 16 0 0)) (Some (local_time 2020 9 17 0 0))
         (clock_at (local_time 2020 9 15 18 0))
     = Some (Inr [\<lparr>startAt = local_time 2020 9 16 10 0, endAt = local_time 2020 9 16 11 0,
                    duration = 60\<rparr>,
                  \<lparr>startAt = local_time 2020 9 16 11 0, endAt = local_time 2020 9 16 12 0,
                    duration = 60\<rparr>,
                  \<lparr>startAt = local_time 2020 9 16 12 0, endAt = local_time 2020 9 16 13 0,
                    duration = 60\<rparr>])"
  by code_simp

section \<open>The search window\<close>

text \<open>
  Claim C5 at \<open>from = to\<close>. The dayjs file tests \<open>from.getTime() > to.getTime()\<close>: with
  both bounds at 15:00 of 2020-10-16 and \<open>baseConfig\<close> the call returns the empty
  list. The luxon file tests \<open>from >= to\<close> and throws on the same input.
\<close>

theorem equal_bounds_dayjs_returns:
  "getAvailableTimeSlotsInCalendar_dayjs zones baseConfig
       (Some (local_time 2020 9 16 15 0)) (Some (local_time 2020 9 16 15 0))
       (clock_at (local_time 2020 9 15 18 0))
     = Some (Inr [])
   \<and> getAvailableTimeSlotsInCalendar_luxon zones baseConfig
       (Some (local_time 2020 9 16 15 0)) (Some (local_time 2020 9 16 15 0))
       (clock_at (local_time 2020 9 15 18 0))
     = Some (Inl (TimeSlotsFinderError ''Invalid date parameters''))"
  by code_simp

section \<open>The two files side by side\<close>

text \<open>
  Claim C2 on the input of the repository's test of \<open>minAvailableTimeAfterSlot\<close>
  (\<open>baseConfig\<close> with 10 minutes after a slot, Friday 2020-10-16 from 15:00 to 16:00,
  the clock two days before). The dayjs file returns the two slots the test
  expects, at 15:00 and 15:25; the luxon file, which the test imports, returns four
  slots, one every 15 minutes.
\<close>

theorem dayjs_and_luxon_differ:
  "getAvailableTimeSlotsInCalendar_dayjs zones afterConfig
       (Some (local_time 2020 9 16 15 0)) (Some (local_time 2020 9 16 16 0))
       (clock_at (local_time 2020 9 14 15 0))
     = Some (Inr [\<lparr>startAt = local_time 2020 9 16 15 0, endAt = local_time 2020 9 16 15 15,
                    duration = 15\<rparr>,
                  \<lparr>startAt = local_time 2020 9 16 15 25, endAt = local_time 2020 9 16 15 40,
                    duration = 15\<rparr>])
   \<and> getAvailableTimeSlotsInCalendar_luxon zones afterConfig
       (Some (local_time 2020 9 16 15 0)) (Some (local_time 2020 9 16 16 0))
       (clock_at (local_time 2020 9 14 15 0))
     = Some (Inr [\<lparr>startAt = local_time 2020 9 16 15 0, endAt = local_time 2020 9 16 15 15,
                    duration = 15\<rparr>,
                  \<lparr>startAt = local_time 2020 9 16 15 15, endAt = local_time 2020 9 16 15 30,
                    duration = 15\<rparr>,
                  \<lparr>startAt = local_time 2020 9 16 15 30, endAt = local_time 2020 9 16 15 45,
                    duration = 15\<rparr>,
                  \<lparr>startAt = local_time 2020 9 16 15 45, endAt = local_time 2020 9 16 16 0,
                    duration = 15\<rparr>])"
  by code_simp

section \<open>Slots and blocked time\<close>

text \<open>
  Claim C1 at two inputs. In the dayjs file the cursor is rounded up after the loop
  test, and events that start at \<open>to\<close> plus duration plus time before a slot, or
  later, are filtered out: with \<open>halfHourConfig\<close> the cursor 09:40 passes the test, is
  rounded to 10:00, and the slot from 10:00 to 10:10 lies in the blocked hour. In
  the luxon file a slot is dropped only when it engulfs a whole event: with
  \<open>blockedConfig\<close> the slot from 12:30 to 12:45 is returned inside the event from
  12:30 to 14:00.
\<close>

theorem slot_overlaps_event:
  "fst (getUnavailablePeriodAsEvents_dayjs
          (case unavailablePeriods halfHourConfig of None \<Rightarrow> [] | Some ps \<Rightarrow> ps)
          (clock_at (local_time 2020 9 15 18 0)))
     = [\<lparr>startAt = local_time 2020 9 16 10 0, endAt = local_time 2020 9 16 11 0\<rparr>]
   \<and> getAvailableTimeSlotsInCalendar_dayjs zones halfHourConfig
         (Some (local_time 2020 9 16 0 0)) (Some (local_time 2020 9 17 0 0))
         (clock_at (local_time 2020 9 15 18 0))
     = Some (Inr [\<lparr>startAt = local_time 2020 9 16 9 0, endAt = local_time 2020 9 16 9 10,
                    duration = 10\<rparr>,
                  \<lparr>startAt = local_time 2020 9 16 9 30, endAt = local_time 2020 9 16 9 40,
                    duration = 10\<rparr>,
                  \<lparr>startAt = local_time 2020 9 16 10 0, endAt = local_time 2020 9 16 10 10,
                    duration = 10\<rparr>])
   \<and> overlaps (local_time 2020 9 16 10 0) (local_time 2020 9 16 10 10)
        (local_time 2020 9 16 10 0) (local_time 2020 9 16 11 0)
   \<and> fst (getUnavailablePeriodAsEvents_luxon True
          (case unavailablePeriods blockedConfig of None \<Rightarrow> [] | Some ps \<Rightarrow> ps)
          (clock_at (local_time 2020 9 15 18 0)))
     = [\<lparr>startAt = Some (local_time 2020 9 16 12 30), endAt = Some (local_time 2020 9 16 14 0)\<rparr>]
   \<and> \<lparr>startAt = local_time 2020 9 16 12 30, endAt = local_time 2020 9 16 12 45, duration = 15\<rparr>
       \<in> set (returned_slots
                (getAvailableTimeSlotsInCalendar_luxon zones blockedConfig
                   (Some (local_time 2020 9 16 11 30)) (Some (local_time 2020 9 16 15 0))
                   (clock_at (local_time 2020 9 15 18 0))))
   \<and> overlaps (local_time 2020 9 16 12 30) (local_time 2020 9 16 12 45)
        (local_time 2020 9 16 12 30) (local_time 2020 9 16 14 0)"
  by code_simp

section \<open>Yearly periods that wrap over the new year\<close>

lemma div_pred:
  fixes y k :: int
  assumes "0 < k"
  shows "(y - 1) div k = (if y mod k = 0 then y div k - 1 else y div k)"
proof (cases "y mod k = 0")
  case True
  have "y = k * (y div k) + y mod k" by simp
  with True have "y - 1 = k * (y div k - 1) + (k - 1)" by (simp add: algebra_simps)
  then have "(y - 1) div k = y div k - 1"
    using assms by (intro int_div_pos_eq[where r = "k - 1"]) simp_all
  with True show ?thesis by simp
next
  case False
  have "0 \<le> y mod k" "y mod k < k" using assms by simp_all
  with False have r: "0 \<le> y mod k - 1" "y mod k - 1 < k" by linarith+
  have "y = k * (y div k) + y mod k" by simp
  then have "y - 1 = k * (y div k) + (y mod k - 1)" by linarith
  then have "(y - 1) div k = y div k"
    using r by (intro int_div_pos_eq[where r = "y mod k - 1"]) simp_all
  with False show ?thesis by simp
qed

lemma dvd_mod_0_trans:
  fixes y a b :: int
  assumes "y mod a = 0" "b dvd a"
  shows "y mod b = 0"
proof -
  from assms(1) have "a dvd y" by (simp add: mod_eq_0_iff_dvd)
  with assms(2) have "b dvd y" by (rule dvd_trans)
  then show ?thesis by simp
qed

lemma days_before_next_year:
  "days_before_year (y + 1) = days_before_year y + (if is_leap y then 366 else 365)"
proof -
  have a: "days_before_year (y + 1) =
      365 * (y - 1970) + 365 + y div 4 - y div 100 + y div 400 - 477"
    by (simp add: days_before_year_def algebra_simps)
  have b: "days_before_year y =
      365 * (y - 1970) + (y - 1) div 4 - (y - 1) div 100 + (y - 1) div 400 - 477"
    by (simp add: days_before_year_def)
  have c: "y mod 400 = 0 \<Longrightarrow> y mod 100 = 0" "y mod 100 = 0 \<Longrightarrow> y mod 4 = 0"
    by (erule dvd_mod_0_trans, simp)+
  have d4: "(y - 1) div 4 = (if y mod 4 = 0 then y div 4 - 1 else y div 4)"
    by (rule div_pred) simp
  have d100: "(y - 1) div 100 = (if y mod 100 = 0 then y div 100 - 1 else y div 100)"
    by (rule div_pred) simp
  have d400: "(y - 1) div 400 = (if y mod 400 = 0 then y div 400 - 1 else y div 400)"
    by (rule div_pred) simp
  show ?thesis
  proof (cases "y mod 4 = 0")
    case False
    with c(2) have n100: "y mod 100 \<noteq> 0" by auto
    with c(1) have n400: "y mod 400 \<noteq> 0" by auto
    from False n100 n400 show ?thesis unfolding a b d4 d100 d400 is_leap_def by simp
  next
    case m4: True
    show ?thesis
    proof (cases "y mod 100 = 0")
      case False
      with c(1) have "y mod 400 \<noteq> 0" by auto
      with m4 False show ?thesis unfolding a b d4 d100 d400 is_leap_def by simp
    next
      case m100: True
      show ?thesis
      proof (cases "y mod 400 = 0")
        case True
        with m4 m100 show ?thesis unfolding a b d4 d100 d400 is_leap_def by simp
      next
        case False
        with m4 m100 show ?thesis unfolding a b d4 d100 d400 is_leap_def by simp
      qed
    qed
  qed
qed

lemma days_in_year_bound:
  assumes "0 \<le> m" "m \<le> 11"
  shows "days_before_month y m + daysInMonth y m \<le> (if is_leap y then 366 else 365)"
    and "0 \<le> days_before_month y m"
proof -
  from assms have "m = 0 \<or> m = 1 \<or> m = 2 \<or> m = 3 \<or> m = 4 \<or> m = 5 \<or> m = 6 \<or> m = 7
      \<or> m = 8 \<or> m = 9 \<or> m = 10 \<or> m = 11" by presburger
  then show "days_before_month y m + daysInMonth y m \<le> (if is_leap y then 366 else 365)"
    and "0 \<le> days_before_month y m"
    by (auto simp: days_before_month_def daysInMonth_def)
qed

lemma civil_instant_in_year:
  assumes "well_formed c"
  shows "days_before_year (c_year c) * 86400000 \<le> civil_instant c"
    and "civil_instant c < days_before_year (c_year c + 1) * 86400000"
proof -
  from assms have m: "0 \<le> c_month c" "c_month c \<le> 11"
    and d: "1 \<le> c_date c" "c_date c \<le> daysInMonth (c_year c) (c_month c)"
    and t: "0 \<le> c_hour c" "c_hour c \<le> 23" "0 \<le> c_minute c" "c_minute c \<le> 59"
      "0 \<le> c_second c" "c_second c \<le> 59" "0 \<le> c_ms c" "c_ms c \<le> 999"
    by (simp_all add: well_formed_def)
  define n where "n = days_before_month (c_year c) (c_month c) + (c_date c - 1)"
  define r where "r = c_hour c * 3600000 + c_minute c * 60000 + c_second c * 1000 + c_ms c"
  have ci: "civil_instant c = (days_before_year (c_year c) + n) * 86400000 + r"
    by (simp add: civil_instant_def n_def r_def algebra_simps)
  have n0: "0 \<le> n" using days_in_year_bound(2)[OF m] d by (simp add: n_def)
  have n1: "n + 1 \<le> (if is_leap (c_year c) then 366 else 365)"
    using days_in_year_bound(1)[OF m, of "c_year c"] d unfolding n_def by linarith
  have r0: "0 \<le> r" using t by (simp add: r_def)
  have r1: "r < 86400000" using t unfolding r_def by linarith
  show "days_before_year (c_year c) * 86400000 \<le> civil_instant c"
    using n0 r0 unfolding ci by (simp add: algebra_simps)
  have "days_before_year (c_year c) + n + 1 \<le> days_before_year (c_year c + 1)"
    using n1 by (simp add: days_before_next_year split: if_splits)
  then have "(days_before_year (c_year c) + n + 1) * 86400000
      \<le> days_before_year (c_year c + 1) * 86400000"
    by simp
  then show "civil_instant c < days_before_year (c_year c + 1) * 86400000"
    using r1 unfolding ci by (simp add: algebra_simps)
qed

lemma isPeriodMomentValid_yearless:
  assumes "year pm = None" "fst (isPeriodMomentValid pm c)"
  shows "0 \<le> month pm" "month pm \<le> 11" "1 \<le> day pm"
    "day pm \<le> daysInMonth (year_of (c 0)) (month pm)"
    "0 \<le> orElse (hour pm) 0" "orElse (hour pm) 0 \<le> 23"
    "0 \<le> orElse (minute pm) 0" "orElse (minute pm) 0 \<le> 59"
  using assms
  by (auto simp: isPeriodMomentValid_def now_def truthy_def orElse_def Let_def
      split: if_splits option.splits)

lemma carry_days_in_range:
  "1 \<le> d \<Longrightarrow> d \<le> daysInMonth y m \<Longrightarrow> carry_days y m d = (y, m, d)"
  by (subst carry_days.simps) simp

lemma js_Date_in_range:
  assumes "100 \<le> y" "0 \<le> M" "M \<le> 11" "1 \<le> d" "d \<le> daysInMonth y M"
    "0 \<le> h" "h \<le> 23" "0 \<le> mi" "mi \<le> 59"
  shows "js_Date y M d h mi =
     \<lparr>c_year = y, c_month = M, c_date = d, c_hour = h, c_minute = mi, c_second = 0, c_ms = 0\<rparr>"
proof -
  have "mi div 60 = 0" "mi mod 60 = mi" using assms by simp_all
  moreover have "h div 24 = 0" "h mod 24 = h" using assms by simp_all
  moreover have "M div 12 = 0" "M mod 12 = M" using assms by simp_all
  moreover have "\<not> (0 \<le> y \<and> y \<le> 99)" using assms by simp
  ultimately show ?thesis
    using assms by (simp add: js_Date_def carry_days_in_range)
qed

lemma dayjs_object_yearless:
  assumes "year pm = None" "fst (isPeriodMomentValid pm c)" "100 \<le> year_of (c 0)"
  shows "dayjs_object pm c =
     (\<lparr>c_year = year_of (c 0), c_month = month pm, c_date = day pm,
       c_hour = orElse (hour pm) 0, c_minute = orElse (minute pm) 0,
       c_second = 0, c_ms = 0\<rparr>, \<lambda>k. c (Suc k))"
proof -
  note v = isPeriodMomentValid_yearless[OF assms(1,2)]
  have "day pm \<noteq> 0" using v(3) by simp
  then show ?thesis
    using assms(1) v(1)
    by (simp add: dayjs_object_def now_def truthy_def Let_def
        js_Date_in_range[OF assms(3) v(1,2,3,4,5,6,7,8)])
qed

lemma daysInMonth_ge: "28 \<le> daysInMonth y m"
  by (simp add: daysInMonth_def)

text \<open>The dayjs file does advance the end. For a period with no year on either end,
  both ends valid, the readings of the clock for the two ends in the same year (100
  or later):
  when the resolved end is before the resolved start, the event ends at the resolved
  end moved to the next year, which lies after the new year, and the event starts
  before it.\<close>

lemma dayjs_end_advanced:
  assumes yearless: "year (startAt p) = None" "year (endAt p) = None"
    and valid: "fst (isPeriodMomentValid (startAt p) c)"
      "fst (isPeriodMomentValid (endAt p) (\<lambda>k. c (Suc (Suc k))))"
    and same_year: "year_of (c 2) = year_of (c 0)"
    and late: "100 \<le> year_of (c 0)"
    and precedes: "isBefore (snd (fst (resolvedEnds_dayjs p c))) (fst (fst (resolvedEnds_dayjs p c)))"
  shows "fst (unavailablePeriodAsEvent_dayjs p c) =
           \<lparr>startAt = civil_instant (fst (fst (resolvedEnds_dayjs p c))),
            endAt = civil_instant (add_year (snd (fst (resolvedEnds_dayjs p c))) 1)\<rparr>
         \<and> c_year (add_year (snd (fst (resolvedEnds_dayjs p c))) 1) = year_of (c 0) + 1
         \<and> startAt (fst (unavailablePeriodAsEvent_dayjs p c))
             < days_before_year (year_of (c 0) + 1) * 86400000
         \<and> days_before_year (year_of (c 0) + 1) * 86400000
             \<le> endAt (fst (unavailablePeriodAsEvent_dayjs p c))
         \<and> startAt (fst (unavailablePeriodAsEvent_dayjs p c))
             < endAt (fst (unavailablePeriodAsEvent_dayjs p c))"
proof -
  define Y where "Y = year_of (c 0)"
  define c1 where "c1 = (\<lambda>k. c (Suc (Suc k)))"
  have c1_0: "year_of (c1 0) = Y" "100 \<le> year_of (c1 0)"
    using same_year late by (simp_all add: c1_def Y_def numeral_2_eq_2)
  note vs = isPeriodMomentValid_yearless[OF yearless(1) valid(1), folded Y_def]
  note ve = isPeriodMomentValid_yearless[OF yearless(2) valid(2)[folded c1_def], unfolded c1_0(1)]
  define S0 where "S0 = \<lparr>c_year = Y, c_month = month (startAt p), c_date = day (startAt p),
       c_hour = orElse (hour (startAt p)) 0, c_minute = orElse (minute (startAt p)) 0,
       c_second = 0, c_ms = 0\<rparr>"
  define E0 where "E0 = \<lparr>c_year = Y, c_month = month (endAt p), c_date = day (endAt p),
       c_hour = orElse (hour (endAt p)) 0, c_minute = orElse (minute (endAt p)) 0,
       c_second = 0, c_ms = 0\<rparr>"
  have ds: "dayjs_object (startAt p) c = (S0, \<lambda>k. c (Suc k))"
    using dayjs_object_yearless[OF yearless(1) valid(1) late]
    by (simp add: S0_def Y_def)
  have de: "dayjs_object (endAt p) c1 = (E0, \<lambda>k. c1 (Suc k))"
    using dayjs_object_yearless[OF yearless(2) valid(2)[folded c1_def] c1_0(2)] c1_0(1)
    by (simp add: E0_def)
  define S where "S = (if hour (startAt p) = None then startOf_day_civil S0 else S0)"
  define E where "E = (if hour (endAt p) = None then endOf_day_civil E0 else E0)"
  have res: "fst (resolvedEnds_dayjs p c) = (S, E)"
    by (simp add: resolvedEnds_dayjs_def dayjs_tz_def now_def ds de[unfolded c1_def]
        S_def E_def)
  have wS: "well_formed S" and yS: "c_year S = Y"
    using vs by (auto simp: S_def S0_def well_formed_def startOf_day_civil_def)
  have wE: "well_formed E" and yE: "c_year E = Y"
    using ve by (auto simp: E_def E0_def well_formed_def endOf_day_civil_def)
  define E' where "E' = add_year E 1"
  have yE': "c_year E' = Y + 1" by (simp add: E'_def add_year_def yE)
  have wE': "well_formed E'"
    using wE daysInMonth_ge[of "Y + 1" "c_month E"]
    by (auto simp: E'_def add_year_def well_formed_def yE)
  from precedes have lt: "isBefore E S" by (simp add: res)
  have ev: "fst (unavailablePeriodAsEvent_dayjs p c)
      = \<lparr>startAt = civil_instant S, endAt = civil_instant E'\<rparr>"
    using res lt
    by (cases "resolvedEnds_dayjs p c")
       (simp add: unavailablePeriodAsEvent_dayjs_def Let_def E'_def)
  have upper: "civil_instant S < days_before_year (Y + 1) * 86400000"
    using civil_instant_in_year(2)[OF wS] by (simp add: yS)
  have lower: "days_before_year (Y + 1) * 86400000 \<le> civil_instant E'"
    using civil_instant_in_year(1)[OF wE'] by (simp add: yE')
  from ev yE' upper lower show ?thesis
    by (simp add: res E'_def Y_def)
qed

lemma dayjs_wrapping_example:
  "fst (getUnavailablePeriodAsEvents_dayjs [wrappingPeriod] (clock_at (local_time 2020 9 15 18 0)))
     = [\<lparr>startAt = local_time 2020 11 20 0 0, endAt = local_time 2021 1 5 23 59 + 59999\<rparr>]"
proof -
  define T where "T = local_time 2020 9 15 18 0"
  define S0 where "S0 = \<lparr>c_year = 2020, c_month = 11, c_date = 20, c_hour = 0, c_minute = 0,
       c_second = 0, c_ms = 0\<rparr>"
  define E0 where "E0 = \<lparr>c_year = 2020, c_month = 1, c_date = 5, c_hour = 0, c_minute = 0,
       c_second = 0, c_ms = 0\<rparr>"
  have y0: "year_of (clock_at T 0) = 2020" unfolding T_def by code_simp
  have shift: "(\<lambda>k. clock_at T (Suc k)) = clock_at T" by (simp add: clock_at_def)
  have ys: "year (startAt wrappingPeriod) = None" "year (endAt wrappingPeriod) = None"
    by (simp_all add: wrappingPeriod_def)
  have v: "fst (isPeriodMomentValid (startAt wrappingPeriod) (clock_at T))"
    "fst (isPeriodMomentValid (endAt wrappingPeriod) (clock_at T))"
    unfolding T_def by code_simp+
  have ds: "dayjs_object (startAt wrappingPeriod) (clock_at T) = (S0, clock_at T)"
    using dayjs_object_yearless[OF ys(1) v(1)] y0
    by (simp add: shift S0_def wrappingPeriod_def orElse_def)
  have de: "dayjs_object (endAt wrappingPeriod) (clock_at T) = (E0, clock_at T)"
    using dayjs_object_yearless[OF ys(2) v(2)] y0
    by (simp add: shift E0_def wrappingPeriod_def orElse_def)
  have b: "isBefore (endOf_day_civil E0) (startOf_day_civil S0)"
    unfolding S0_def E0_def by code_simp
  have s: "civil_instant (startOf_day_civil S0) = local_time 2020 11 20 0 0"
    unfolding S0_def by code_simp
  have e: "civil_instant (add_year (endOf_day_civil E0) 1) = local_time 2021 1 5 23 59 + 59999"
    unfolding E0_def by code_simp
  have h: "hour (startAt wrappingPeriod) = None" "hour (endAt wrappingPeriod) = None"
    by (simp_all add: wrappingPeriod_def)
  show ?thesis
    unfolding T_def[symmetric]
    by (simp add: unavailablePeriodAsEvent_dayjs_def resolvedEnds_dayjs_def dayjs_tz_def
        now_def shift ds de h b s e)
qed

text \<open>
  Claim C7 at \<open>wrappingPeriod\<close>, read in 2020. The luxon file accepts the period and
  resolves both ends in 2020, the end (January 5th, in luxon's numbering of months)
  before the start (November 20th): nothing moves the end to the next year. The dayjs
  file resolves the same period to December 20th 2020 and the end of February 5th
  2021.
\<close>

theorem luxon_end_not_advanced:
  "fst (isUnavailablePeriodValid_luxon wrappingPeriod (clock_at (local_time 2020 9 15 18 0)))
   \<and> fst (getUnavailablePeriodAsEvents_luxon True [wrappingPeriod]
            (clock_at (local_time 2020 9 15 18 0)))
     = [\<lparr>startAt = Some (local_time 2020 10 20 0 0), endAt = Some (local_time 2020 0 5 0 0)\<rparr>]
   \<and> local_time 2020 0 5 0 0 < local_time 2020 10 20 0 0
   \<and> fst (getUnavailablePeriodAsEvents_dayjs [wrappingPeriod]
            (clock_at (local_time 2020 9 15 18 0)))
     = [\<lparr>startAt = local_time 2020 11 20 0 0, endAt = local_time 2021 1 5 23 59 + 59999\<rparr>]"
proof -
  have valid: "fst (isUnavailablePeriodValid_luxon wrappingPeriod
                      (clock_at (local_time 2020 9 15 18 0)))"
    by code_simp
  have events: "fst (getUnavailablePeriodAsEvents_luxon True [wrappingPeriod]
            (clock_at (local_time 2020 9 15 18 0)))
     = [\<lparr>startAt = Some (local_time 2020 10 20 0 0), endAt = Some (local_time 2020 0 5 0 0)\<rparr>]"
    by code_simp
  have order: "local_time 2020 0 5 0 0 < local_time 2020 10 20 0 0"
    by code_simp
  from valid events order dayjs_wrapping_example show ?thesis by blast
qed

section \<open>Readings of the clock\<close>

lemma later_0: "later 0 c = c"
  by (simp add: later_def)

lemma later_later: "later m (later n c) = later (n + m) c"
  by (simp add: later_def ac_simps)

lemma now_later: "now c = (c 0, later 1 c)"
  by (simp add: now_def later_def)

lemma agree_later: "agree (m + n) c c' \<Longrightarrow> agree n (later m c) (later m c')"
  by (simp add: agree_def later_def)

lemma agree_less: "agree n c c' \<Longrightarrow> m \<le> n \<Longrightarrow> agree m c c'"
  by (simp add: agree_def)

lemma takes_mono: "takes F n \<Longrightarrow> n \<le> n' \<Longrightarrow> takes F n'"
  unfolding takes_def by (meson le_trans)

lemma takes_Pair: "takes (Pair x) n"
  unfolding takes_def by (intro allI exI[of _ 0]) (simp add: later_0)

lemma takes_now: "takes now (Suc n)"
  unfolding takes_def
  by (intro allI exI[of _ 1]) (simp add: now_later agree_def)

lemma takes_bind:
  assumes F: "takes F n1" and G: "\<And>a. takes (G a) n2"
  shows "takes (bind_clock F G) (n1 + n2)"
  unfolding takes_def
proof
  fix c
  from F obtain m1 where m1: "m1 \<le> n1" "F c = (fst (F c), later m1 c)"
    "\<And>c'. agree m1 c c' \<Longrightarrow> F c' = (fst (F c), later m1 c')"
    unfolding takes_def by blast
  define a where "a = fst (F c)"
  from G[of a] obtain m2 where m2: "m2 \<le> n2"
    "G a (later m1 c) = (fst (G a (later m1 c)), later m2 (later m1 c))"
    "\<And>c'. agree m2 (later m1 c) c' \<Longrightarrow> G a c' = (fst (G a (later m1 c)), later m2 c')"
    unfolding takes_def by blast
  have Fc: "F c = (a, later m1 c)" using m1(2) by (simp add: a_def)
  have val: "bind_clock F G c = (fst (G a (later m1 c)), later (m1 + m2) c)"
    using m2(2) by (simp add: bind_clock_def Fc later_later)
  have other: "bind_clock F G c' = (fst (G a (later m1 c)), later (m1 + m2) c')"
    if ag: "agree (m1 + m2) c c'" for c'
  proof -
    have "agree m1 c c'" using ag by (rule agree_less) simp
    then have Fc': "F c' = (a, later m1 c')" using m1(3) by (simp add: a_def)
    have "agree m2 (later m1 c) (later m1 c')" using ag by (rule agree_later)
    from m2(3)[OF this] show ?thesis
      by (simp add: bind_clock_def Fc' later_later)
  qed
  show "\<exists>m\<le>n1 + n2. bind_clock F G c = (fst (bind_clock F G c), later m c)
          \<and> (\<forall>c'. agree m c c' \<longrightarrow> bind_clock F G c' = (fst (bind_clock F G c), later m c'))"
    using m1(1) m2(1) val other by (intro exI[of _ "m1 + m2"]) simp
qed

lemma takes_bind_Suc:
  "takes F (Suc 0) \<Longrightarrow> (\<And>a. takes (G a) n) \<Longrightarrow> takes (bind_clock F G) (Suc n)"
  using takes_bind[of F "Suc 0" G n] by simp

lemma takes_if: "takes F n \<Longrightarrow> takes G n \<Longrightarrow> takes (if b then F else G) n"
  by simp

lemma takes_case_sum:
  "(\<And>e. takes (F e) n) \<Longrightarrow> (\<And>x. takes (G x) n) \<Longrightarrow> takes (case r of Inl e \<Rightarrow> F e | Inr x \<Rightarrow> G x) n"
  by (cases r) simp_all

lemma takes_case_option:
  "takes F n \<Longrightarrow> (\<And>x. takes (G x) n) \<Longrightarrow> takes (case r of None \<Rightarrow> F | Some x \<Rightarrow> G x) n"
  by (cases r) simp_all

lemma takes_case_prod:
  "(\<And>x y. takes (G x y) n) \<Longrightarrow> takes (case r of (x, y) \<Rightarrow> G x y) n"
  by (cases r) simp_all

lemma takesD:
  assumes "takes F n" "agree n c c'"
  shows "fst (F c') = fst (F c)"
proof -
  from assms(1) obtain m where "m \<le> n" "\<And>c'. agree m c c' \<Longrightarrow> F c' = (fst (F c), later m c')"
    unfolding takes_def by blast
  with agree_less[OF assms(2)] show ?thesis by simp
qed

text \<open>Each function that reads the clock, as a sequence of readings: the ones that
  read it at most once.\<close>

lemma isPeriodMomentValid_bind:
  "isPeriodMomentValid periodMoment =
     (if hour periodMoment = None \<and> minute periodMoment \<noteq> None then Pair False
      else if \<not> ((case year periodMoment of None \<Rightarrow> True | Some y \<Rightarrow> y > 0)
                \<and> month periodMoment \<ge> 0 \<and> month periodMoment \<le> 11) then Pair False
      else bind_clock now (\<lambda>n. Pair (fst (isPeriodMomentValid periodMoment (\<lambda>k. n)))))"
  by (auto simp: fun_eq_iff bind_clock_def isPeriodMomentValid_def now_def Let_def)

lemma takes_isPeriodMomentValid: "takes (isPeriodMomentValid periodMoment) (Suc 0)"
  by (subst isPeriodMomentValid_bind) (intro takes_if takes_bind_Suc takes_Pair takes_now)

lemma checkTimeZone_dayjs_bind:
  "checkTimeZone_dayjs zoneKnown tz =
     (if tz = [] then Pair (Inl (TimeSlotsFinderError ''Missing time zone''))
      else bind_clock now (\<lambda>n. Pair (if zoneKnown tz then Inr ()
              else Inl (TimeSlotsFinderError (''Invalid time zone: '' @ tz)))))"
  by (auto simp: fun_eq_iff bind_clock_def checkTimeZone_dayjs_def now_def)

lemma takes_checkTimeZone_dayjs: "takes (checkTimeZone_dayjs zoneKnown tz) (Suc 0)"
  by (subst checkTimeZone_dayjs_bind) (intro takes_if takes_bind_Suc takes_Pair takes_now)

lemma checkPrimitiveValue_dayjs_bind:
  "checkPrimitiveValue_dayjs zoneKnown configuration =
     (if timeSlotDuration configuration < 1
         \<or> \<not> nullOrBetween 1 30 (slotStartMinuteStep configuration)
         \<or> \<not> nullOrGreaterThanOrEqualTo 0 (minAvailableTimeBeforeSlot configuration)
         \<or> \<not> nullOrGreaterThanOrEqualTo 0 (minAvailableTimeAfterSlot configuration)
         \<or> \<not> nullOrGreaterThanOrEqualTo 0 (minTimeBeforeFirstSlot configuration)
         \<or> \<not> nullOrGreaterThanOrEqualTo 1 (maxDaysBeforeLastSlot configuration)
      then Pair (fst (checkPrimitiveValue_dayjs zoneKnown configuration (\<lambda>k. 0)))
      else bind_clock (checkTimeZone_dayjs zoneKnown (timeZone configuration))
             (\<lambda>r. Pair (case r of Inl e \<Rightarrow> Inl e
                   | Inr u \<Rightarrow> if lead_exceeds_horizon configuration
                       then Inl (TimeSlotsFinderError lead_horizon_message) else Inr True)))"
  by (auto simp: fun_eq_iff bind_clock_def checkPrimitiveValue_dayjs_def
      split: prod.splits sum.splits)

lemma takes_checkPrimitiveValue_dayjs: "takes (checkPrimitiveValue_dayjs zoneKnown configuration) (Suc 0)"
  by (subst checkPrimitiveValue_dayjs_bind)
     (intro takes_if takes_bind_Suc takes_Pair takes_checkTimeZone_dayjs)

lemma dayjs_object_bind:
  "dayjs_object pm = bind_clock now (\<lambda>n. Pair (fst (dayjs_object pm (\<lambda>k. n))))"
  by (auto simp: fun_eq_iff bind_clock_def dayjs_object_def now_def Let_def)

lemma takes_dayjs_object: "takes (dayjs_object pm) (Suc 0)"
  by (subst dayjs_object_bind) (intro takes_bind_Suc takes_Pair takes_now)

lemma dayjs_tz_bind: "dayjs_tz parsed = bind_clock now (\<lambda>n. Pair parsed)"
  by (auto simp: fun_eq_iff bind_clock_def dayjs_tz_def now_def)

lemma takes_dayjs_tz: "takes (dayjs_tz parsed) (Suc 0)"
  by (subst dayjs_tz_bind) (intro takes_bind_Suc takes_Pair takes_now)


text \<open>The functions that call them.\<close>

lemma isUnavailablePeriodValid_dayjs_bind:
  "isUnavailablePeriodValid_dayjs period =
     (if (year (startAt period) = None) \<noteq> (year (endAt period) = None) then Pair False
      else bind_clock (isPeriodMomentValid (startAt period))
        (\<lambda>v1. if \<not> v1 then Pair False
          else bind_clock (isPeriodMomentValid (endAt period))
            (\<lambda>v2. if \<not> v2 then Pair False
              else if year (startAt period) = None then Pair True
              else bind_clock (dayjs_object (startAt period))
                (\<lambda>a. bind_clock (dayjs_object (endAt period)) (\<lambda>b. Pair (isBefore a b))))))"
  by (auto simp: fun_eq_iff bind_clock_def isUnavailablePeriodValid_dayjs_def
      split: prod.splits)

lemma takes_isUnavailablePeriodValid_dayjs:
  "takes (isUnavailablePeriodValid_dayjs period) (readings_of_period period)"
proof (cases "year (startAt period) = None")
  case True
  have "isUnavailablePeriodValid_dayjs period =
     (if year (endAt period) \<noteq> None then Pair False
      else bind_clock (isPeriodMomentValid (startAt period))
        (\<lambda>v1. if \<not> v1 then Pair False
          else bind_clock (isPeriodMomentValid (endAt period))
            (\<lambda>v2. if \<not> v2 then Pair False else Pair True)))"
    by (subst isUnavailablePeriodValid_dayjs_bind) (simp add: True)
  moreover have "takes \<dots> (Suc (Suc 0))"
    by (intro takes_if takes_bind_Suc takes_Pair takes_isPeriodMomentValid)
  ultimately show ?thesis
    by (simp add: readings_of_period_def True numeral_2_eq_2)
next
  case False
  have "takes (isUnavailablePeriodValid_dayjs period) (Suc (Suc (Suc (Suc 0))))"
    by (subst isUnavailablePeriodValid_dayjs_bind)
       (intro takes_if takes_bind_Suc takes_Pair takes_isPeriodMomentValid takes_dayjs_object)
  then show ?thesis
    by (simp add: readings_of_period_def False eval_nat_numeral)
qed

lemma checkUnavailablePeriods_dayjs_bind:
  "checkUnavailablePeriods_dayjs (p # ps) i =
     bind_clock (isUnavailablePeriodValid_dayjs p)
       (\<lambda>v. if \<not> v
            then Pair (Inl (TimeSlotsFinderError (''Unavailable period '' @ numero i @ '' is invalid'')))
            else checkUnavailablePeriods_dayjs ps (i + 1))"
  by (auto simp: fun_eq_iff bind_clock_def split: prod.splits)

lemma takes_checkUnavailablePeriods_dayjs:
  "takes (checkUnavailablePeriods_dayjs ps i) (sum_list (map readings_of_period ps))"
proof (induction ps arbitrary: i)
  case Nil
  have "checkUnavailablePeriods_dayjs [] i = Pair (Inr True)" by (simp add: fun_eq_iff)
  then show ?case by (simp add: takes_Pair)
next
  case (Cons p ps)
  have "takes (checkUnavailablePeriods_dayjs (p # ps) i)
          (readings_of_period p + sum_list (map readings_of_period ps))"
    by (subst checkUnavailablePeriods_dayjs_bind)
       (intro takes_bind takes_if takes_Pair takes_isUnavailablePeriodValid_dayjs Cons.IH)
  then show ?case by (simp del: checkUnavailablePeriods_dayjs.simps)
qed

lemma isConfigurationValid_dayjs_bind:
  "isConfigurationValid_dayjs zoneKnown configuration =
     bind_clock (checkPrimitiveValue_dayjs zoneKnown configuration)
       (\<lambda>r. case r of Inl e \<Rightarrow> Pair (Inl e)
          | Inr u \<Rightarrow>
              (case checkAvailablePeriods (availablePeriods configuration) 0 of
                 Inl e \<Rightarrow> Pair (Inl e)
               | Inr u \<Rightarrow>
                   bind_clock
                     (checkUnavailablePeriods_dayjs
                        (case unavailablePeriods configuration of None \<Rightarrow> [] | Some ps \<Rightarrow> ps) 0)
                     (\<lambda>r. Pair (case r of Inl e \<Rightarrow> Inl e | Inr u \<Rightarrow> Inr True))))"
  by (auto simp: fun_eq_iff bind_clock_def isConfigurationValid_dayjs_def
      split: prod.splits sum.splits option.splits)

lemma takes_isConfigurationValid_dayjs:
  "takes (isConfigurationValid_dayjs zoneKnown configuration) (readings_of_validation configuration)"
proof -
  let ?n = "sum_list (map readings_of_period
              (case unavailablePeriods configuration of None \<Rightarrow> [] | Some ps \<Rightarrow> ps))"
  have inner: "takes (bind_clock
                     (checkUnavailablePeriods_dayjs
                        (case unavailablePeriods configuration of None \<Rightarrow> [] | Some ps \<Rightarrow> ps) 0)
                     (\<lambda>r. Pair (case r of Inl e \<Rightarrow> Inl e | Inr u \<Rightarrow> Inr True))) ?n"
    using takes_bind[OF takes_checkUnavailablePeriods_dayjs, of _ 0, OF takes_Pair]
    by simp
  have "takes (isConfigurationValid_dayjs zoneKnown configuration) (Suc ?n)"
    by (subst isConfigurationValid_dayjs_bind)
       (intro takes_bind_Suc takes_case_sum takes_Pair takes_checkPrimitiveValue_dayjs inner)
  then show ?thesis by (simp add: readings_of_validation_def)
qed

lemma checkSearchParameters_dayjs_bind:
  "checkSearchParameters_dayjs zoneKnown configuration (Some f) (Some t) =
     (if f > t then Pair (Inl (TimeSlotsFinderError ''Invalid boundaries for the search''))
      else bind_clock
             (isConfigurationValid_dayjs zoneKnown
                (configuration\<lparr>availablePeriods :=
                   mergeOverlappingShiftsInAvailablePeriods (availablePeriods configuration)\<rparr>))
             (\<lambda>r. Pair (case r of Inl e \<Rightarrow> Inl e
                   | Inr u \<Rightarrow> Inr (configuration\<lparr>availablePeriods :=
                       mergeOverlappingShiftsInAvailablePeriods (availablePeriods configuration)\<rparr>))))"
  by (auto simp: fun_eq_iff bind_clock_def checkSearchParameters_dayjs_def Let_def
      split: prod.splits sum.splits)

lemma takes_checkSearchParameters_dayjs:
  "takes (checkSearchParameters_dayjs zoneKnown configuration (Some f) (Some t))
     (readings_of_validation configuration)"
proof -
  let ?u = "configuration\<lparr>availablePeriods :=
              mergeOverlappingShiftsInAvailablePeriods (availablePeriods configuration)\<rparr>"
  have n: "readings_of_validation ?u = readings_of_validation configuration"
    by (simp add: readings_of_validation_def)
  have inner: "takes (bind_clock (isConfigurationValid_dayjs zoneKnown ?u)
             (\<lambda>r. Pair (case r of Inl e \<Rightarrow> Inl e | Inr u \<Rightarrow> Inr ?u)))
          (readings_of_validation configuration)"
    using takes_bind[OF takes_isConfigurationValid_dayjs[of zoneKnown ?u], of _ 0, OF takes_Pair]
    by (simp only: n add_0_right)
  show ?thesis
    by (subst checkSearchParameters_dayjs_bind) (intro takes_if takes_Pair inner)
qed

lemma resolvedEnds_dayjs_bind:
  "resolvedEnds_dayjs p =
     bind_clock (dayjs_object (startAt p))
       (\<lambda>sf. bind_clock (dayjs_tz sf)
         (\<lambda>s0. bind_clock (dayjs_object (endAt p))
           (\<lambda>ef. bind_clock (dayjs_tz ef)
             (\<lambda>e0. Pair ((if hour (startAt p) = None then startOf_day_civil s0 else s0),
                         (if hour (endAt p) = None then endOf_day_civil e0 else e0))))))"
  by (auto simp: fun_eq_iff bind_clock_def resolvedEnds_dayjs_def split: prod.splits)

lemma takes_resolvedEnds_dayjs: "takes (resolvedEnds_dayjs p) (Suc (Suc (Suc (Suc 0))))"
  by (subst resolvedEnds_dayjs_bind)
     (intro takes_bind_Suc takes_Pair takes_dayjs_object takes_dayjs_tz)

lemma unavailablePeriodAsEvent_dayjs_bind:
  "unavailablePeriodAsEvent_dayjs p =
     bind_clock (resolvedEnds_dayjs p)
       (\<lambda>r. Pair \<lparr>startAt = civil_instant (fst r),
                   endAt = civil_instant (if isBefore (snd r) (fst r) then add_year (snd r) 1
                                          else snd r)\<rparr>)"
  by (auto simp: fun_eq_iff bind_clock_def unavailablePeriodAsEvent_dayjs_def Let_def
      split: prod.splits)

lemma takes_unavailablePeriodAsEvent_dayjs:
  "takes (unavailablePeriodAsEvent_dayjs p) 4"
  using takes_bind[OF takes_resolvedEnds_dayjs, of _ 0, OF takes_Pair]
  by (subst unavailablePeriodAsEvent_dayjs_bind) (simp add: eval_nat_numeral)

lemma getUnavailablePeriodAsEvents_dayjs_bind:
  "getUnavailablePeriodAsEvents_dayjs (p # ps) =
     bind_clock (unavailablePeriodAsEvent_dayjs p)
       (\<lambda>ev. bind_clock (getUnavailablePeriodAsEvents_dayjs ps) (\<lambda>evs. Pair (ev # evs)))"
  by (auto simp: fun_eq_iff bind_clock_def split: prod.splits)

lemma takes_getUnavailablePeriodAsEvents_dayjs:
  "takes (getUnavailablePeriodAsEvents_dayjs ps) (4 * length ps)"
proof (induction ps)
  case Nil
  have "getUnavailablePeriodAsEvents_dayjs [] = Pair []" by (simp add: fun_eq_iff)
  then show ?case by (simp add: takes_Pair)
next
  case (Cons p ps)
  have inner: "takes (bind_clock (getUnavailablePeriodAsEvents_dayjs ps) (\<lambda>evs. Pair (ev # evs)))
                 (4 * length ps)" for ev
    using takes_bind[OF Cons.IH, of _ 0, OF takes_Pair] by simp
  have "takes (getUnavailablePeriodAsEvents_dayjs (p # ps)) (4 + 4 * length ps)"
    by (subst getUnavailablePeriodAsEvents_dayjs_bind)
       (intro takes_bind takes_unavailablePeriodAsEvent_dayjs inner)
  then show ?case by (simp del: getUnavailablePeriodAsEvents_dayjs.simps)
qed

lemma computeBoundaries_dayjs_bind:
  "computeBoundaries_dayjs f t configuration =
     bind_clock
       (if truthy (maxDaysBeforeLastSlot configuration)
        then bind_clock now
               (\<lambda>n. Pair (Some (endOf_day (add_day n (orElse (maxDaysBeforeLastSlot configuration) 0)))))
        else Pair None)
       (\<lambda>searchLimitMoment. bind_clock now
          (\<lambda>n2. Pair (max f
                        (add_minute
                           (add_minute n2 (orElse (minAvailableTimeBeforeSlot configuration) 0))
                           (orElse (minTimeBeforeFirstSlot configuration) 0)),
                      (case searchLimitMoment of Some limit \<Rightarrow> min t limit | None \<Rightarrow> t))))"
  by (auto simp: fun_eq_iff bind_clock_def computeBoundaries_dayjs_def Let_def
      split: prod.splits)

lemma takes_computeBoundaries_dayjs:
  "takes (computeBoundaries_dayjs f t configuration) (Suc (Suc 0))"
  by (subst computeBoundaries_dayjs_bind)
     (intro takes_bind_Suc takes_if takes_Pair takes_now)

lemma getAvailableTimeSlotsInCalendar_dayjs_bind:
  "getAvailableTimeSlotsInCalendar_dayjs zoneKnown configuration (Some f) (Some t) c =
     fst (bind_clock (checkSearchParameters_dayjs zoneKnown configuration (Some f) (Some t))
            (\<lambda>r. case r of
                Inl e \<Rightarrow> Pair (Some (Inl e))
              | Inr usedConfig \<Rightarrow>
                  bind_clock
                    (getUnavailablePeriodAsEvents_dayjs
                       (case unavailablePeriods configuration of None \<Rightarrow> [] | Some ps \<Rightarrow> ps))
                    (\<lambda>eventList. bind_clock (computeBoundaries_dayjs f t usedConfig)
                       (\<lambda>b. Pair (map_option Inr
                                    (dayLoop_dayjs usedConfig eventList (fst b) (snd b) (fst b) [])))))
          c)"
proof (cases "checkSearchParameters_dayjs zoneKnown configuration (Some f) (Some t) c")
  case (Pair r c1)
  show ?thesis
  proof (cases r)
    case (Inl e)
    with Pair show ?thesis
      by (simp add: getAvailableTimeSlotsInCalendar_dayjs_def bind_clock_def)
  next
    case (Inr usedConfig)
    from checkSearchParameters_dayjs_Inr(1)[OF Pair[unfolded Inr]]
    have "unavailablePeriods usedConfig = unavailablePeriods configuration" by simp
    with Pair Inr show ?thesis
      by (simp add: getAvailableTimeSlotsInCalendar_dayjs_def bind_clock_def
          split: prod.splits)
  qed
qed

lemma takes_getAvailableTimeSlotsInCalendar_dayjs:
  "takes (bind_clock (checkSearchParameters_dayjs zoneKnown configuration (Some f) (Some t))
            (\<lambda>r. case r of
                Inl e \<Rightarrow> Pair (Some (Inl e))
              | Inr usedConfig \<Rightarrow>
                  bind_clock
                    (getUnavailablePeriodAsEvents_dayjs
                       (case unavailablePeriods configuration of None \<Rightarrow> [] | Some ps \<Rightarrow> ps))
                    (\<lambda>eventList. bind_clock (computeBoundaries_dayjs f t usedConfig)
                       (\<lambda>b. Pair (map_option Inr
                                    (dayLoop_dayjs usedConfig eventList (fst b) (snd b) (fst b) []))))))
     (readings_before_boundaries configuration + 2)"
proof -
  let ?ps = "case unavailablePeriods configuration of None \<Rightarrow> [] | Some ps \<Rightarrow> ps"
  have b: "takes (bind_clock (computeBoundaries_dayjs f t u) (\<lambda>b. Pair (G b))) 2" for u
      and G :: "instant \<times> instant \<Rightarrow> 'x"
    using takes_bind[OF takes_computeBoundaries_dayjs, of _ 0, OF takes_Pair]
    by (simp add: numeral_2_eq_2)
  have "takes (bind_clock (checkSearchParameters_dayjs zoneKnown configuration (Some f) (Some t))
            (\<lambda>r. case r of
                Inl e \<Rightarrow> Pair (Some (Inl e))
              | Inr usedConfig \<Rightarrow>
                  bind_clock (getUnavailablePeriodAsEvents_dayjs ?ps)
                    (\<lambda>eventList. bind_clock (computeBoundaries_dayjs f t usedConfig)
                       (\<lambda>b. Pair (map_option Inr
                                    (dayLoop_dayjs usedConfig eventList (fst b) (snd b) (fst b) []))))))
     (readings_of_validation configuration + (4 * length ?ps + 2))"
    by (intro takes_bind takes_case_sum takes_Pair takes_checkSearchParameters_dayjs
        takes_getUnavailablePeriodAsEvents_dayjs b)
  then show ?thesis by (simp add: readings_before_boundaries_def add.assoc)
qed

lemma same_readings_same_result:
  assumes "agree (readings_before_boundaries configuration + 2) c c'"
  shows "getAvailableTimeSlotsInCalendar_dayjs zoneKnown configuration (Some f) (Some t) c'
       = getAvailableTimeSlotsInCalendar_dayjs zoneKnown configuration (Some f) (Some t) c"
  unfolding getAvailableTimeSlotsInCalendar_dayjs_bind
  by (rule takesD[OF takes_getAvailableTimeSlotsInCalendar_dayjs assms])


text \<open>The number of readings of each function on the path on which validation
  passes.\<close>

lemma isPeriodMomentValid_readings:
  "fst (isPeriodMomentValid pm c) \<Longrightarrow> snd (isPeriodMomentValid pm c) = later 1 c"
  by (auto simp: isPeriodMomentValid_def now_later Let_def split: if_splits)

lemma dayjs_object_readings: "snd (dayjs_object pm c) = later 1 c"
  by (simp add: dayjs_object_def now_later Let_def)

lemma dayjs_tz_readings: "dayjs_tz parsed c = (parsed, later 1 c)"
  by (simp add: dayjs_tz_def now_later)

lemma isUnavailablePeriodValid_dayjs_readings:
  assumes "fst (isUnavailablePeriodValid_dayjs p c)"
  shows "snd (isUnavailablePeriodValid_dayjs p c) = later (readings_of_period p) c"
proof -
  obtain v1 c1 where 1: "isPeriodMomentValid (startAt p) c = (v1, c1)" by fastforce
  obtain v2 c2 where 2: "isPeriodMomentValid (endAt p) c1 = (v2, c2)" by fastforce
  from assms 1 2 have v: "v1" "v2"
    by (auto simp: isUnavailablePeriodValid_dayjs_def split: if_splits)
  from isPeriodMomentValid_readings[of "startAt p" c] 1 v have c1: "c1 = later 1 c" by simp
  from isPeriodMomentValid_readings[of "endAt p" c1] 2 v have c2: "c2 = later 2 c"
    by (simp add: c1 later_later eval_nat_numeral)
  show ?thesis
  proof (cases "year (startAt p) = None")
    case True
    with assms 1 2 v show ?thesis
      by (auto simp: isUnavailablePeriodValid_dayjs_def readings_of_period_def c2
          split: if_splits)
  next
    case False
    obtain a c3 where 3: "dayjs_object (startAt p) c2 = (a, c3)" by fastforce
    obtain b c4 where 4: "dayjs_object (endAt p) c3 = (b, c4)" by fastforce
    from dayjs_object_readings[of "startAt p" c2] 3 have c3: "c3 = later 3 c"
      by (simp add: c2 later_later eval_nat_numeral)
    from dayjs_object_readings[of "endAt p" c3] 4 have c4: "c4 = later 4 c"
      by (simp add: c3 later_later eval_nat_numeral)
    from assms 1 2 3 4 v False show ?thesis
      by (auto simp: isUnavailablePeriodValid_dayjs_def readings_of_period_def c4
          split: if_splits)
  qed
qed

lemma checkUnavailablePeriods_dayjs_readings:
  "fst (checkUnavailablePeriods_dayjs ps i c) = Inr b
   \<Longrightarrow> snd (checkUnavailablePeriods_dayjs ps i c)
       = later (sum_list (map readings_of_period ps)) c"
proof (induction ps arbitrary: i c)
  case Nil
  then show ?case by (simp add: later_0)
next
  case (Cons p ps)
  obtain v c1 where 1: "isUnavailablePeriodValid_dayjs p c = (v, c1)" by fastforce
  from Cons.prems 1 have v: v by (auto split: if_splits)
  from isUnavailablePeriodValid_dayjs_readings[of p c] 1 v
  have c1: "c1 = later (readings_of_period p) c" by simp
  from Cons.prems 1 v have "fst (checkUnavailablePeriods_dayjs ps (i + 1) c1) = Inr b" by simp
  from Cons.IH[OF this] 1 v show ?case by (simp add: c1 later_later)
qed

lemma checkPrimitiveValue_dayjs_readings:
  "fst (checkPrimitiveValue_dayjs zoneKnown configuration c) = Inr b
   \<Longrightarrow> snd (checkPrimitiveValue_dayjs zoneKnown configuration c) = later 1 c"
  by (auto simp: checkPrimitiveValue_dayjs_def checkTimeZone_dayjs_def now_later
      split: if_splits prod.splits sum.splits)

lemma isConfigurationValid_dayjs_readings:
  assumes "fst (isConfigurationValid_dayjs zoneKnown configuration c) = Inr b"
  shows "snd (isConfigurationValid_dayjs zoneKnown configuration c)
       = later (readings_of_validation configuration) c"
proof -
  obtain r c1 where 1: "checkPrimitiveValue_dayjs zoneKnown configuration c = (r, c1)"
    by fastforce
  from assms 1 obtain u where r: "r = Inr u"
    by (cases r) (auto simp: isConfigurationValid_dayjs_def)
  from checkPrimitiveValue_dayjs_readings[of zoneKnown configuration c u] 1 r
  have c1: "c1 = later 1 c" by simp
  from assms 1 r obtain w where a: "checkAvailablePeriods (availablePeriods configuration) 0 = Inr w"
    by (cases "checkAvailablePeriods (availablePeriods configuration) 0")
       (auto simp: isConfigurationValid_dayjs_def)
  show ?thesis
  proof (cases "unavailablePeriods configuration")
    case None
    with 1 r a show ?thesis
      by (simp add: isConfigurationValid_dayjs_def readings_of_validation_def c1)
  next
    case (Some ps)
    obtain r2 c2 where 2: "checkUnavailablePeriods_dayjs ps 0 c1 = (r2, c2)" by fastforce
    from assms 1 r a Some 2 obtain w2 where r2: "r2 = Inr w2"
      by (cases r2) (auto simp: isConfigurationValid_dayjs_def)
    from checkUnavailablePeriods_dayjs_readings[of ps 0 c1 w2] 2 r2
    have "c2 = later (sum_list (map readings_of_period ps)) c1" by simp
    with 1 r a Some 2 r2 show ?thesis
      by (simp add: isConfigurationValid_dayjs_def readings_of_validation_def c1 later_later)
  qed
qed

lemma checkSearchParameters_dayjs_readings:
  assumes "fst (checkSearchParameters_dayjs zoneKnown configuration (Some f) (Some t) c)
             = Inr usedConfig"
  shows "snd (checkSearchParameters_dayjs zoneKnown configuration (Some f) (Some t) c)
       = later (readings_of_validation configuration) c"
    and "unavailablePeriods usedConfig = unavailablePeriods configuration"
    and "maxDaysBeforeLastSlot usedConfig = maxDaysBeforeLastSlot configuration"
    and "minAvailableTimeBeforeSlot usedConfig = minAvailableTimeBeforeSlot configuration"
    and "minTimeBeforeFirstSlot usedConfig = minTimeBeforeFirstSlot configuration"
proof -
  let ?u = "configuration\<lparr>availablePeriods :=
              mergeOverlappingShiftsInAvailablePeriods (availablePeriods configuration)\<rparr>"
  obtain r c1 where 1: "isConfigurationValid_dayjs zoneKnown ?u c = (r, c1)" by fastforce
  from assms 1 obtain w where r: "r = Inr w" and u: "usedConfig = ?u"
    by (cases r) (auto simp: checkSearchParameters_dayjs_def Let_def split: if_splits)
  have n: "readings_of_validation ?u = readings_of_validation configuration"
    by (simp add: readings_of_validation_def)
  from isConfigurationValid_dayjs_readings[of zoneKnown ?u c w] 1 r
  have "c1 = later (readings_of_validation configuration) c" by (simp add: n)
  with assms 1 r show "snd (checkSearchParameters_dayjs zoneKnown configuration (Some f) (Some t) c)
       = later (readings_of_validation configuration) c"
    by (auto simp: checkSearchParameters_dayjs_def Let_def split: if_splits)
  show "unavailablePeriods usedConfig = unavailablePeriods configuration"
    and "maxDaysBeforeLastSlot usedConfig = maxDaysBeforeLastSlot configuration"
    and "minAvailableTimeBeforeSlot usedConfig = minAvailableTimeBeforeSlot configuration"
    and "minTimeBeforeFirstSlot usedConfig = minTimeBeforeFirstSlot configuration"
    by (simp_all add: u)
qed

lemma unavailablePeriodAsEvent_dayjs_readings:
  "snd (unavailablePeriodAsEvent_dayjs p c) = later 4 c"
proof -
  obtain a c1 where 1: "dayjs_object (startAt p) c = (a, c1)" by fastforce
  from dayjs_object_readings[of "startAt p" c] 1 have c1: "c1 = later 1 c" by simp
  have 2: "dayjs_tz a c1 = (a, later 2 c)"
    by (simp add: dayjs_tz_readings c1 later_later eval_nat_numeral)
  obtain b c3 where 3: "dayjs_object (endAt p) (later 2 c) = (b, c3)" by fastforce
  from dayjs_object_readings[of "endAt p" "later 2 c"] 3 have c3: "c3 = later 3 c"
    by (simp add: later_later eval_nat_numeral)
  have 4: "dayjs_tz b c3 = (b, later 4 c)"
    by (simp add: dayjs_tz_readings c3 later_later eval_nat_numeral)
  show ?thesis
    by (simp add: unavailablePeriodAsEvent_dayjs_def resolvedEnds_dayjs_def 1 2 3 4 Let_def)
qed

lemma getUnavailablePeriodAsEvents_dayjs_readings:
  "snd (getUnavailablePeriodAsEvents_dayjs ps c) = later (4 * length ps) c"
proof (induction ps arbitrary: c)
  case Nil
  then show ?case by (simp add: later_0)
next
  case (Cons p ps)
  obtain ev c1 where 1: "unavailablePeriodAsEvent_dayjs p c = (ev, c1)" by fastforce
  from unavailablePeriodAsEvent_dayjs_readings[of p c] 1 have c1: "c1 = later 4 c" by simp
  obtain evs c2 where 2: "getUnavailablePeriodAsEvents_dayjs ps c1 = (evs, c2)" by fastforce
  from Cons.IH[of c1] 2 have "c2 = later (4 + 4 * length ps) c"
    by (simp add: c1 later_later)
  with 1 2 show ?case by simp
qed

lemma computeBoundaries_dayjs_readings:
  "fst (computeBoundaries_dayjs f t configuration c) =
     (max f (add_minute
               (add_minute (c (if truthy (maxDaysBeforeLastSlot configuration) then 1 else 0))
                  (orElse (minAvailableTimeBeforeSlot configuration) 0))
               (orElse (minTimeBeforeFirstSlot configuration) 0)),
      if truthy (maxDaysBeforeLastSlot configuration)
      then min t (endOf_day (add_day (c 0) (orElse (maxDaysBeforeLastSlot configuration) 0)))
      else t)"
  by (simp add: computeBoundaries_dayjs_def now_def Let_def)

lemma getAvailableTimeSlotsInCalendar_dayjs_readings:
  assumes ok: "fst (checkSearchParameters_dayjs zoneKnown configuration (Some f) (Some t) c)
             = Inr usedConfig"
  shows "getAvailableTimeSlotsInCalendar_dayjs zoneKnown configuration (Some f) (Some t) c
     = map_option Inr
         (dayLoop_dayjs usedConfig
            (fst (getUnavailablePeriodAsEvents_dayjs
                    (case unavailablePeriods configuration of None \<Rightarrow> [] | Some ps \<Rightarrow> ps)
                    (later (readings_of_validation configuration) c)))
            (max f (add_minute
               (add_minute
                  (c (if truthy (maxDaysBeforeLastSlot configuration)
                      then Suc (readings_before_boundaries configuration)
                      else readings_before_boundaries configuration))
                  (orElse (minAvailableTimeBeforeSlot configuration) 0))
               (orElse (minTimeBeforeFirstSlot configuration) 0)))
            (if truthy (maxDaysBeforeLastSlot configuration)
             then min t (endOf_day (add_day (c (readings_before_boundaries configuration))
                                      (orElse (maxDaysBeforeLastSlot configuration) 0)))
             else t)
            (max f (add_minute
               (add_minute
                  (c (if truthy (maxDaysBeforeLastSlot configuration)
                      then Suc (readings_before_boundaries configuration)
                      else readings_before_boundaries configuration))
                  (orElse (minAvailableTimeBeforeSlot configuration) 0))
               (orElse (minTimeBeforeFirstSlot configuration) 0)))
            [])"
proof -
  let ?ps = "case unavailablePeriods configuration of None \<Rightarrow> [] | Some ps \<Rightarrow> ps"
  let ?nv = "readings_of_validation configuration"
  note r = checkSearchParameters_dayjs_readings[OF ok]
  have 1: "checkSearchParameters_dayjs zoneKnown configuration (Some f) (Some t) c
         = (Inr usedConfig, later ?nv c)"
    using ok r(1) by (simp add: prod_eq_iff)
  obtain evs c2 where 2: "getUnavailablePeriodAsEvents_dayjs ?ps (later ?nv c) = (evs, c2)"
    by fastforce
  from getUnavailablePeriodAsEvents_dayjs_readings[of ?ps "later ?nv c"] 2
  have c2: "c2 = later (readings_before_boundaries configuration) c"
    by (simp add: later_later readings_before_boundaries_def)
  obtain b c3 where 3: "computeBoundaries_dayjs f t usedConfig c2 = (b, c3)" by fastforce
  from computeBoundaries_dayjs_readings[of f t usedConfig c2] 3
  have b: "b = (max f (add_minute
               (add_minute
                  (c (if truthy (maxDaysBeforeLastSlot configuration)
                      then Suc (readings_before_boundaries configuration)
                      else readings_before_boundaries configuration))
                  (orElse (minAvailableTimeBeforeSlot configuration) 0))
               (orElse (minTimeBeforeFirstSlot configuration) 0)),
            if truthy (maxDaysBeforeLastSlot configuration)
             then min t (endOf_day (add_day (c (readings_before_boundaries configuration))
                                      (orElse (maxDaysBeforeLastSlot configuration) 0)))
             else t)"
    by (simp add: r c2 later_def)
  show ?thesis
    using 2 3
    by (simp add: getAvailableTimeSlotsInCalendar_dayjs_def 1 r(2) b)
qed


text \<open>
  Claim C8, as the code has it. A call of the dayjs search with both bounds given
  reads the clock several times, and each computation uses the reading it took.
  When \<open>_checkSearchParameters\<close> throws, the call throws that error. When it passes,
  validation has taken \<open>readings_of_validation\<close> readings (one in \<open>_checkTimeZone\<close>,
  and for each unavailable period one in each \<open>_isPeriodMomentValid\<close> and, when the
  period gives years, one in each \<open>dayjs(object)\<close>); the events are resolved from the
  readings that follow, four for each period (\<open>dayjs(object)\<close> and \<open>dayjs.tz\<close> for
  each end); then, with \<open>N = readings_before_boundaries\<close> readings taken so far,
  \<open>_computeBoundaries\<close> takes reading \<open>N\<close> for the horizon limit and reading \<open>N + 1\<close>
  for the earliest start when \<open>maxDaysBeforeLastSlot\<close> is set, and reading \<open>N\<close> for
  the earliest start otherwise; the call returns the slots of the day loop between
  these bounds. The result is fixed by the explicit inputs and the first \<open>N + 2\<close>
  readings: two calls with the same inputs whose clocks agree on these readings end
  the same way.
\<close>

theorem readings_of_a_call:
  "(case fst (checkSearchParameters_dayjs zoneKnown configuration (Some from) (Some to) c) of
      Inl e \<Rightarrow>
        getAvailableTimeSlotsInCalendar_dayjs zoneKnown configuration (Some from) (Some to) c
          = Some (Inl e)
    | Inr usedConfig \<Rightarrow>
        getAvailableTimeSlotsInCalendar_dayjs zoneKnown configuration (Some from) (Some to) c
          = map_option Inr
              (dayLoop_dayjs usedConfig
                 (fst (getUnavailablePeriodAsEvents_dayjs
                         (case unavailablePeriods configuration of None \<Rightarrow> [] | Some ps \<Rightarrow> ps)
                         (later (readings_of_validation configuration) c)))
                 (max from (add_minute
                    (add_minute
                       (c (if truthy (maxDaysBeforeLastSlot configuration)
                           then Suc (readings_before_boundaries configuration)
                           else readings_before_boundaries configuration))
                       (orElse (minAvailableTimeBeforeSlot configuration) 0))
                    (orElse (minTimeBeforeFirstSlot configuration) 0)))
                 (if truthy (maxDaysBeforeLastSlot configuration)
                  then min to (endOf_day (add_day (c (readings_before_boundaries configuration))
                                            (orElse (maxDaysBeforeLastSlot configuration) 0)))
                  else to)
                 (max from (add_minute
                    (add_minute
                       (c (if truthy (maxDaysBeforeLastSlot configuration)
                           then Suc (readings_before_boundaries configuration)
                           else readings_before_boundaries configuration))
                       (orElse (minAvailableTimeBeforeSlot configuration) 0))
                    (orElse (minTimeBeforeFirstSlot configuration) 0)))
                 []))
   \<and> (agree (readings_before_boundaries configuration + 2) c c'
      \<longrightarrow> getAvailableTimeSlotsInCalendar_dayjs zoneKnown configuration (Some from) (Some to) c'
          = getAvailableTimeSlotsInCalendar_dayjs zoneKnown configuration (Some from) (Some to) c)"
proof (intro conjI impI)
  show "case fst (checkSearchParameters_dayjs zoneKnown configuration (Some from) (Some to) c) of
      Inl e \<Rightarrow>
        getAvailableTimeSlotsInCalendar_dayjs zoneKnown configuration (Some from) (Some to) c
          = Some (Inl e)
    | Inr usedConfig \<Rightarrow>
        getAvailableTimeSlotsInCalendar_dayjs zoneKnown configuration (Some from) (Some to) c
          = map_option Inr
              (dayLoop_dayjs usedConfig
                 (fst (getUnavailablePeriodAsEvents_dayjs
                         (case unavailablePeriods configuration of None \<Rightarrow> [] | Some ps \<Rightarrow> ps)
                         (later (readings_of_validation configuration) c)))
                 (max from (add_minute
                    (add_minute
                       (c (if truthy (maxDaysBeforeLastSlot configuration)
                           then Suc (readings_before_boundaries configuration)
                           else readings_before_boundaries configuration))
                       (orElse (minAvailableTimeBeforeSlot configuration) 0))
                    (orElse (minTimeBeforeFirstSlot configuration) 0)))
                 (if truthy (maxDaysBeforeLastSlot configuration)
                  then min to (endOf_day (add_day (c (readings_before_boundaries configuration))
                                            (orElse (maxDaysBeforeLastSlot configuration) 0)))
                  else to)
                 (max from (add_minute
                    (add_minute
                       (c (if truthy (maxDaysBeforeLastSlot configuration)
                           then Suc (readings_before_boundaries configuration)
                           else readings_before_boundaries configuration))
                       (orElse (minAvailableTimeBeforeSlot configuration) 0))
                    (orElse (minTimeBeforeFirstSlot configuration) 0)))
                 [])"
  proof (cases "fst (checkSearchParameters_dayjs zoneKnown configuration (Some from) (Some to) c)")
    case (Inl e)
    then show ?thesis
      by (cases "checkSearchParameters_dayjs zoneKnown configuration (Some from) (Some to) c")
         (simp add: getAvailableTimeSlotsInCalendar_dayjs_def)
  next
    case (Inr usedConfig)
    from getAvailableTimeSlotsInCalendar_dayjs_readings[OF Inr] Inr show ?thesis by simp
  qed
next
  assume "agree (readings_before_boundaries configuration + 2) c c'"
  then show "getAvailableTimeSlotsInCalendar_dayjs zoneKnown configuration (Some from) (Some to) c'
          = getAvailableTimeSlotsInCalendar_dayjs zoneKnown configuration (Some from) (Some to) c"
    by (rule same_readings_same_result)
qed

theorem readings_of_a_call_witness:
  "fst (checkSearchParameters_dayjs zones blockedHorizonConfig
          (Some (local_time 2020 10 13 11 30)) (Some (local_time 2020 10 13 15 0))
          (clock_ticking (local_time 2020 10 13 11 59 + 59995)))
     = Inr blockedHorizonConfig
   \<and> readings_of_validation blockedHorizonConfig = 5
   \<and> readings_before_boundaries blockedHorizonConfig = 9
   \<and> agree (readings_before_boundaries blockedHorizonConfig + 2)
         (clock_ticking (local_time 2020 10 13 11 59 + 59995))
         (clock_until 11 (clock_ticking (local_time 2020 10 13 11 59 + 59995)))
   \<and> getAvailableTimeSlotsInCalendar_dayjs zones blockedHorizonConfig
         (Some (local_time 2020 10 13 11 30)) (Some (local_time 2020 10 13 15 0))
         (clock_ticking (local_time 2020 10 13 11 59 + 59995))
     = map_option Inr
         (dayLoop_dayjs blockedHorizonConfig
            (fst (getUnavailablePeriodAsEvents_dayjs
                    (case unavailablePeriods blockedHorizonConfig of None \<Rightarrow> [] | Some ps \<Rightarrow> ps)
                    (later 5 (clock_ticking (local_time 2020 10 13 11 59 + 59995)))))
            (max (local_time 2020 10 13 11 30) (local_time 2020 10 13 12 0 + 5))
            (min (local_time 2020 10 13 15 0)
               (endOf_day (add_day (local_time 2020 10 13 12 0 + 4) 30)))
            (max (local_time 2020 10 13 11 30) (local_time 2020 10 13 12 0 + 5))
            [])
   \<and> getAvailableTimeSlotsInCalendar_dayjs zones blockedHorizonConfig
         (Some (local_time 2020 10 13 11 30)) (Some (local_time 2020 10 13 15 0))
         (clock_until 11 (clock_ticking (local_time 2020 10 13 11 59 + 59995)))
     = getAvailableTimeSlotsInCalendar_dayjs zones blockedHorizonConfig
         (Some (local_time 2020 10 13 11 30)) (Some (local_time 2020 10 13 15 0))
         (clock_ticking (local_time 2020 10 13 11 59 + 59995))"
proof -
  let ?c = "clock_ticking (local_time 2020 10 13 11 59 + 59995)"
  have ok: "fst (checkSearchParameters_dayjs zones blockedHorizonConfig
          (Some (local_time 2020 10 13 11 30)) (Some (local_time 2020 10 13 15 0)) ?c)
     = Inr blockedHorizonConfig"
    by code_simp
  have nv: "readings_of_validation blockedHorizonConfig = 5"
    by (simp add: readings_of_validation_def readings_of_period_def
        blockedHorizonConfig_def blockedConfig_def)
  have n: "readings_before_boundaries blockedHorizonConfig = 9"
    by (simp add: readings_before_boundaries_def nv)
       (simp add: blockedHorizonConfig_def blockedConfig_def)
  have ag: "agree (readings_before_boundaries blockedHorizonConfig + 2) ?c (clock_until 11 ?c)"
    by (simp add: n agree_def clock_until_def)
  have fields: "truthy (maxDaysBeforeLastSlot blockedHorizonConfig)"
    "orElse (maxDaysBeforeLastSlot blockedHorizonConfig) 0 = 30"
    "orElse (minAvailableTimeBeforeSlot blockedHorizonConfig) 0 = 0"
    "orElse (minTimeBeforeFirstSlot blockedHorizonConfig) 0 = 0"
    by code_simp+
  have r: "?c 9 = local_time 2020 10 13 12 0 + 4" "?c (Suc 9) = local_time 2020 10 13 12 0 + 5"
    by code_simp+
  have z: "add_minute t 0 = t" for t by (simp add: add_minute_def)
  note t = readings_of_a_call[of zones blockedHorizonConfig "local_time 2020 10 13 11 30"
      "local_time 2020 10 13 15 0" ?c "clock_until 11 ?c"]
  from t ok have a: "getAvailableTimeSlotsInCalendar_dayjs zones blockedHorizonConfig
         (Some (local_time 2020 10 13 11 30)) (Some (local_time 2020 10 13 15 0)) ?c
     = map_option Inr
         (dayLoop_dayjs blockedHorizonConfig
            (fst (getUnavailablePeriodAsEvents_dayjs
                    (case unavailablePeriods blockedHorizonConfig of None \<Rightarrow> [] | Some ps \<Rightarrow> ps)
                    (later 5 ?c)))
            (max (local_time 2020 10 13 11 30) (local_time 2020 10 13 12 0 + 5))
            (min (local_time 2020 10 13 15 0)
               (endOf_day (add_day (local_time 2020 10 13 12 0 + 4) 30)))
            (max (local_time 2020 10 13 11 30) (local_time 2020 10 13 12 0 + 5))
            [])"
    by (simp only: sum.case nv n fields r z if_True)
  from t ag have b: "getAvailableTimeSlotsInCalendar_dayjs zones blockedHorizonConfig
         (Some (local_time 2020 10 13 11 30)) (Some (local_time 2020 10 13 15 0))
         (clock_until 11 ?c)
     = getAvailableTimeSlotsInCalendar_dayjs zones blockedHorizonConfig
         (Some (local_time 2020 10 13 11 30)) (Some (local_time 2020 10 13 15 0)) ?c"
    by blast
  from ok nv n ag a b show ?thesis by blast
qed

text \<open>Claim C8 as stated fails: two runs with the same explicit inputs and the same
  first reading of the clock return different slots when a later reading differs; and
  inside one call of \<open>_computeBoundaries\<close>, with a reading just before midnight and
  the next at midnight, the earliest start comes from the second reading and the
  horizon limit from the first.\<close>

theorem single_clock_read_counterexample:
  "clock_then (local_time 2020 9 16 15 20) (local_time 2020 9 16 15 40) 0
     = clock_at (local_time 2020 9 16 15 20) 0
   \<and> getAvailableTimeSlotsInCalendar_dayjs zones baseConfig
       (Some (local_time 2020 9 16 15 0)) (Some (local_time 2020 9 16 16 0))
       (clock_at (local_time 2020 9 16 15 20))
     = Some (Inr [\<lparr>startAt = local_time 2020 9 16 15 20, endAt = local_time 2020 9 16 15 35,
                    duration = 15\<rparr>,
                  \<lparr>startAt = local_time 2020 9 16 15 35, endAt = local_time 2020 9 16 15 50,
                    duration = 15\<rparr>])
   \<and> getAvailableTimeSlotsInCalendar_dayjs zones baseConfig
       (Some (local_time 2020 9 16 15 0)) (Some (local_time 2020 9 16 16 0))
       (clock_then (local_time 2020 9 16 15 20) (local_time 2020 9 16 15 40))
     = Some (Inr [\<lparr>startAt = local_time 2020 9 16 15 40, endAt = local_time 2020 9 16 15 55,
                    duration = 15\<rparr>])
   \<and> fst (computeBoundaries_dayjs (local_time 2020 9 16 15 0) (local_time 2020 9 19 16 0)
           horizonConfig
           (clock_then (local_time 2020 9 16 23 59 + 59999) (local_time 2020 9 17 0 0)))
     = (local_time 2020 9 17 0 0, local_time 2020 9 17 23 59 + 59999)"
  by code_simp

end
